theory Spec2Isabelle
  imports Main
begin

section \<open>The root filesystem of an image (daemon/internal/image/rootfs.go)\<close>

text \<open>
  A \<open>layer.DiffID\<close> is a digest, which Go stores as a string. \<open>RootFS\<close> is a struct
  with a string and a slice of diff-IDs. The methods take a pointer receiver and
  \<open>Append\<close> assigns the result of the built-in \<open>append\<close>, so two \<open>RootFS\<close> values may
  share a backing array. The model therefore keeps an explicit store: backing arrays
  and \<open>RootFS\<close> structs live in two address spaces, an address being an index.
\<close>

type_synonym DiffID = string

datatype slice = NilSlice | Slice (sarr: nat) (soff: nat) (slen: nat) (scap: nat)

record RootFS =
  Type :: string
  DiffIDs :: slice

record heap =
  arrays :: "DiffID list list"
  structs :: "RootFS list"

datatype panic = NilPointerDereference

definition TypeLayers :: string where
  "TypeLayers = ''layers''"

fun slice_len :: "slice \<Rightarrow> nat" where
  "slice_len NilSlice = 0"
| "slice_len (Slice a off n c) = n"

fun slice_cap :: "slice \<Rightarrow> nat" where
  "slice_cap NilSlice = 0"
| "slice_cap (Slice a off n c) = c"

text \<open>The elements a slice denotes: \<open>len\<close> cells of its array from its offset on.\<close>

fun read_slice :: "heap \<Rightarrow> slice \<Rightarrow> DiffID list" where
  "read_slice h NilSlice = []"
| "read_slice h (Slice a off n c) = take n (drop off (arrays h ! a))"

text \<open>
  What Go's memory safety guarantees of every slice value: its array exists, and the
  window of \<open>cap\<close> cells from the offset lies inside it.
\<close>

fun valid_slice :: "heap \<Rightarrow> slice \<Rightarrow> bool" where
  "valid_slice h NilSlice = True"
| "valid_slice h (Slice a off n c) =
     (a < length (arrays h) \<and> n \<le> c \<and> off + c \<le> length (arrays h ! a))"

definition write_at :: "DiffID list \<Rightarrow> nat \<Rightarrow> DiffID list \<Rightarrow> DiffID list" where
  "write_at cells i xs = take i cells @ xs @ drop (i + length xs) cells"

text \<open>
  The built-in \<open>append(s, xs...)\<close>. When the capacity suffices the new elements are
  written into the shared array after the last element and the header grows; otherwise
  a new array is allocated and the old elements are copied. The language only promises
  a "sufficiently large" new array: the surplus capacity is the parameter \<open>grow\<close>
  (old capacity, needed length), the spare cells hold the zero value.
\<close>

definition go_append :: "(nat \<Rightarrow> nat \<Rightarrow> nat) \<Rightarrow> heap \<Rightarrow> slice \<Rightarrow> DiffID list \<Rightarrow> heap \<times> slice" where
  "go_append grow h s xs =
     (let need = slice_len s + length xs in
      if need \<le> slice_cap s then
        (case s of
           NilSlice \<Rightarrow> (h, NilSlice)
         | Slice a off n c \<Rightarrow>
             (h\<lparr>arrays := (arrays h)[a := write_at (arrays h ! a) (off + n) xs]\<rparr>,
              Slice a off need c))
      else
        (h\<lparr>arrays := arrays h @ [read_slice h s @ xs @ replicate (grow (slice_cap s) need) '''']\<rparr>,
         Slice (length (arrays h)) 0 need (need + grow (slice_cap s) need)))"

text \<open>
  \<open>slices.Clone\<close> of the standard library (the file requires go1.23) is
  \<open>append(s[:0:0], s...)\<close>: the zero-capacity reslice keeps a nil slice nil and forces
  a new array for every non-empty slice.
\<close>

fun reslice_0_0 :: "slice \<Rightarrow> slice" where
  "reslice_0_0 NilSlice = NilSlice"
| "reslice_0_0 (Slice a off n c) = Slice a off 0 0"

definition slices_Clone :: "(nat \<Rightarrow> nat \<Rightarrow> nat) \<Rightarrow> heap \<Rightarrow> slice \<Rightarrow> heap \<times> slice" where
  "slices_Clone grow h s = go_append grow h (reslice_0_0 s) (read_slice h s)"

text \<open>A \<open>*RootFS\<close> is \<open>None\<close> (nil) or the address of a struct.\<close>

fun deref :: "heap \<Rightarrow> nat option \<Rightarrow> RootFS option" where
  "deref h None = None"
| "deref h (Some a) = (if a < length (structs h) then Some (structs h ! a) else None)"

definition NewRootFS :: "heap \<Rightarrow> heap \<times> nat option" where
  "NewRootFS h =
     (h\<lparr>structs := structs h @ [\<lparr>Type = TypeLayers, DiffIDs = NilSlice\<rparr>]\<rparr>,
      Some (length (structs h)))"

definition Append :: "(nat \<Rightarrow> nat \<Rightarrow> nat) \<Rightarrow> heap \<Rightarrow> nat option \<Rightarrow> DiffID \<Rightarrow> panic + heap" where
  "Append grow h r d =
     (case deref h r of
        None \<Rightarrow> Inl NilPointerDereference
      | Some v \<Rightarrow>
          (case go_append grow h (DiffIDs v) [d] of
             (h', s') \<Rightarrow> Inr (h'\<lparr>structs := (structs h')[the r := v\<lparr>DiffIDs := s'\<rparr>]\<rparr>)))"

definition Clone :: "(nat \<Rightarrow> nat \<Rightarrow> nat) \<Rightarrow> heap \<Rightarrow> nat option \<Rightarrow> panic + heap \<times> nat option" where
  "Clone grow h r =
     (case deref h r of
        None \<Rightarrow> Inl NilPointerDereference
      | Some v \<Rightarrow>
          (case slices_Clone grow h (DiffIDs v) of
             (h', s') \<Rightarrow>
               Inr (h'\<lparr>structs := structs h' @ [\<lparr>Type = Type v, DiffIDs = s'\<rparr>]\<rparr>,
                    Some (length (structs h')))))"

text \<open>Observations of a \<open>RootFS\<close> through its pointer.\<close>

definition valid_rootfs :: "heap \<Rightarrow> nat option \<Rightarrow> bool" where
  "valid_rootfs h r = (case deref h r of None \<Rightarrow> False | Some v \<Rightarrow> valid_slice h (DiffIDs v))"

definition Type_of :: "heap \<Rightarrow> nat option \<Rightarrow> string option" where
  "Type_of h r = map_option Type (deref h r)"

definition DiffIDs_of :: "heap \<Rightarrow> nat option \<Rightarrow> DiffID list option" where
  "DiffIDs_of h r = map_option (\<lambda>v. read_slice h (DiffIDs v)) (deref h r)"

text \<open>
  A concrete store: one \<open>RootFS\<close> with two diff-IDs in an array of capacity three, so
  that an \<open>Append\<close> writes into the spare cell of the shared array.
\<close>

definition heap0 :: heap where
  "heap0 = \<lparr>arrays = [[''d1'', ''d2'', '''']],
            structs = [\<lparr>Type = ''layers'', DiffIDs = Slice 0 0 2 3\<rparr>]\<rparr>"

section \<open>The pull engine (distribution/pull_v2.go): data\<close>

text \<open>
  Digests, raw blobs and layer IDs are Go strings or byte slices. A reference is a name
  that carries a tag, a digest, or neither; every type switch of the file tests
  \<open>reference.Canonical\<close> first, so a reference with both a tag and a digest takes the
  \<open>Canonical\<close> branches throughout and is represented by \<open>Canonical\<close>.
\<close>

type_synonym digest = string
type_synonym bytes = string

datatype reference =
    NameOnly string
  | Tagged string string
  | Canonical string digest

fun ref_name :: "reference \<Rightarrow> string" where
  "ref_name (NameOnly n) = n"
| "ref_name (Tagged n t) = n"
| "ref_name (Canonical n d) = n"

fun IsNameOnly :: "reference \<Rightarrow> bool" where
  "IsNameOnly (NameOnly n) = True"
| "IsNameOnly r = False"

text \<open>
  \<open>specs.Platform\<close> and \<open>manifestlist.PlatformSpec\<close> have the same fields but for
  \<open>Features\<close>, which only the latter has; one record serves for both, and \<open>Features\<close> is
  nil in a \<open>specs.Platform\<close>. The two slices are compared with nil by \<open>toOCIPlatform\<close>:
  \<open>None\<close> is the nil slice, \<open>Some []\<close> an empty slice that is not nil.
\<close>

record Platform =
  Architecture :: string
  OS :: string
  OSVersion :: string
  OSFeatures :: "string list option"
  Variant :: string
  Features :: "string list option"

record Descriptor =
  MediaType :: string
  Size :: int
  Digest :: digest

record ManifestDescriptor = Descriptor +
  MPlatform :: Platform

text \<open>
  Go errors are interface values. The constructors are the error types and sentinel
  values the file creates or inspects; \<open>Errorf\<close> carries the message of a
  \<open>fmt.Errorf\<close> or \<open>errors.New\<close>, \<open>Wrap\<close> is \<open>errors.Wrap\<close>/\<open>Wrapf\<close> with its message,
  and \<open>Other\<close> is an error value returned by a collaborator.
\<close>

datatype error =
    errRootFSMismatch
  | errRootFSInvalid
  | imageConfigPullError error
  | noMatchesErr Platform
  | DoNotRetry error
  | fallbackError error bool
  | ErrNotSupportedOperatingSystem
  | ErrDoesNotExist
  | ErrWrongCodeForByteRange
  | invalidManifestFormatError
  | invalidManifestClassError string string
  | Errorf string
  | Wrap error string
  | Other string
  | Panic string

fun IsDoNotRetryError :: "error \<Rightarrow> bool" where
  "IsDoNotRetryError (DoNotRetry e) = True"
| "IsDoNotRetryError e = False"

text \<open>
  \<open>errors.As(err, &noMatches)\<close> walks the \<open>Unwrap\<close> chain. Of the error types above
  only the wrapper of \<open>errors.Wrap\<close> has an \<open>Unwrap\<close> method.
\<close>

fun As_noMatchesErr :: "error \<Rightarrow> bool" where
  "As_noMatchesErr (noMatchesErr p) = True"
| "As_noMatchesErr (Wrap e m) = As_noMatchesErr e"
| "As_noMatchesErr e = False"

subsection \<open>Manifests\<close>

record schema1_Manifest =
  SchemaVersion :: int
  FSLayers :: "digest list"
  History :: "string list"

record SignedManifest = schema1_Manifest +
  Canonical_bytes :: bytes

record DeserializedManifest =
  Config :: Descriptor
  Layers :: "Descriptor list"
  Payload :: bytes

record DeserializedManifestList =
  Manifests :: "ManifestDescriptor list"
  ListPayload :: bytes

datatype manifest =
    Schema1 SignedManifest
  | Schema2 DeserializedManifest
  | OCI DeserializedManifest
  | ManifestList DeserializedManifestList
  | UnknownManifest

record V1Image =
  ID :: string
  Parent :: string

text \<open>
  A \<open>layerDescriptor\<close> as the pullers create it: the blob digest, the diff-ID (empty
  until known) and the source descriptor. Its download state is modelled with
  \<open>Download\<close> below.
\<close>

record layerDescriptor =
  ld_digest :: digest
  ld_diffID :: DiffID
  ld_src :: "Descriptor option"

subsection \<open>Local state\<close>

text \<open>
  The Image Store maps an image ID to the configuration stored under it, the Reference
  Store a reference to an image ID. \<open>downloads\<close> records every call of
  \<open>DownloadManager.Download\<close> with its descriptors and its result, \<open>out\<close> the messages
  written to the progress output.
\<close>

record pstate =
  images :: "digest \<rightharpoonup> bytes"
  refs :: "reference \<rightharpoonup> digest"
  downloads :: "(layerDescriptor list \<times> (error + DiffID list)) list"
  out :: "(string \<times> string) list"

subsection \<open>Configuration and collaborators\<close>

text \<open>
  The puller works against collaborators that are not part of the file: the registry
  client, the download manager, the two local stores, and library functions. Each is a
  field of the environment, a function from its arguments to its result, so that every
  error they can return is an input of the model.
\<close>

record config =
  RequireSchema2 :: bool
  Schema2Types :: "string list"
  cfg_Platform :: "Platform option"
  has_ReferenceStore :: bool
  DownloadManager :: "(layerDescriptor list \<Rightarrow> error + DiffID list) option"
  endpoint_Mirror :: bool
  GOOS :: string

text \<open>
  \<open>blobs_Get\<close> takes the number of the attempt, \<open>ctx_Done\<close> says whether the context is
  found cancelled while the retry loop backs off after that attempt.
  \<open>repo_Manifests_err\<close> is the result of \<open>p.repo.Manifests\<close> in \<open>pull\<close>,
  \<open>fallback_Manifests_err\<close> that of the second call in \<open>pullTag\<close>.
\<close>

record registry =
  newRepository_err :: "error option"
  repo_Manifests_err :: "error option"
  fallback_Manifests_err :: "error option"
  tags_All :: "error + string list"
  tags_Get :: "string \<Rightarrow> error + Descriptor"
  manifestStore_Get :: "Descriptor \<Rightarrow> error + manifest option"
  manifests_Get_WithTag :: "string \<Rightarrow> error + manifest option"
  blobs_Get :: "nat \<Rightarrow> digest \<Rightarrow> error + bytes"
  ctx_Done :: "nat \<Rightarrow> error option"

record stores =
  Put_err :: "bytes \<Rightarrow> error option"
  ref_Get_err :: "reference \<Rightarrow> error option"
  AddDigest_err :: "reference \<Rightarrow> digest \<Rightarrow> error option"
  AddTag_err :: "reference \<Rightarrow> digest \<Rightarrow> error option"

record lib =
  FromBytes :: "bytes \<Rightarrow> digest"
  digest_Validate :: "digest \<Rightarrow> error option"
  IsOSSupported :: "string \<Rightarrow> bool"
  checkImageCompatibility :: "string \<Rightarrow> string \<Rightarrow> error option"
  filterManifests :: "ManifestDescriptor list \<Rightarrow> Platform \<Rightarrow> ManifestDescriptor list"
  rootFSFromConfig :: "bytes \<Rightarrow> error + DiffID list option"
  platformFromConfig :: "bytes \<Rightarrow> error + Platform"
  retryOnError :: "error \<Rightarrow> error"
  continueOnError :: "error \<Rightarrow> bool \<Rightarrow> bool"
  isNotFound :: "error \<Rightarrow> bool"
  WithTag_err :: "string \<Rightarrow> error option"
  WithDigest_err :: "digest \<Rightarrow> error option"
  FamiliarString :: "reference \<Rightarrow> string"
  reference_String :: "reference \<Rightarrow> string"
  Domain :: "reference \<Rightarrow> string"
  defaultImageTypes :: "string list"
  mediaTypeClasses :: "string \<Rightarrow> string"

record v1lib =
  unmarshal_V1Image :: "string \<Rightarrow> error + V1Image"
  unmarshal_throwaway :: "string \<Rightarrow> error + bool"
  ValidateID :: "string \<Rightarrow> error option"
  HistoryFromConfig :: "string \<Rightarrow> bool \<Rightarrow> error + string"
  MakeConfigFromV1Config :: "string \<Rightarrow> DiffID list \<Rightarrow> string list \<Rightarrow> error + bytes"

record env =
  cfg :: config
  reg :: registry
  sto :: stores
  lib :: lib
  v1 :: v1lib

text \<open>
  Modelled from the spec: the digest verifier "wraps a cryptographic hash with an
  accumulate/verify contract", and the Image Store's \<open>Put(configJSON)\<close> "returns an ID
  equal to the content digest of configJSON". Both belong to packages outside the file;
  they share the one content-digest function \<open>FromBytes\<close>.
\<close>

definition Verified :: "env \<Rightarrow> digest \<Rightarrow> bytes \<Rightarrow> bool" where
  "Verified env d b = (FromBytes (lib env) b = d)"

definition ImageStore_Get :: "pstate \<Rightarrow> digest \<Rightarrow> error + bytes" where
  "ImageStore_Get st d = (case images st d of None \<Rightarrow> Inl ErrDoesNotExist | Some c \<Rightarrow> Inr c)"

definition ImageStore_Put :: "env \<Rightarrow> pstate \<Rightarrow> bytes \<Rightarrow> pstate \<times> (error + digest)" where
  "ImageStore_Put env st c =
     (case Put_err (sto env) c of
        Some e \<Rightarrow> (st, Inl e)
      | None \<Rightarrow> (st\<lparr>images := (images st)(FromBytes (lib env) c \<mapsto> c)\<rparr>, Inr (FromBytes (lib env) c)))"

text \<open>
  Modelled from the spec: the Reference Store has \<open>Get(ref)\<close>, which "returns a
  distinguished does-not-exist error when absent", \<open>AddDigest(canonicalRef, imageID,
  force)\<close> and \<open>AddTag(ref, imageID, force)\<close>; the file always passes \<open>force = true\<close>.
  The code checks each of them for an error.
\<close>

definition ReferenceStore_Get :: "env \<Rightarrow> pstate \<Rightarrow> reference \<Rightarrow> error + digest" where
  "ReferenceStore_Get env st r =
     (case ref_Get_err (sto env) r of
        Some e \<Rightarrow> Inl e
      | None \<Rightarrow> (case refs st r of None \<Rightarrow> Inl ErrDoesNotExist | Some i \<Rightarrow> Inr i))"

definition ReferenceStore_AddDigest :: "env \<Rightarrow> pstate \<Rightarrow> reference \<Rightarrow> digest \<Rightarrow> pstate \<times> error option" where
  "ReferenceStore_AddDigest env st r i =
     (case AddDigest_err (sto env) r i of
        Some e \<Rightarrow> (st, Some e)
      | None \<Rightarrow> (st\<lparr>refs := (refs st)(r \<mapsto> i)\<rparr>, None))"

definition ReferenceStore_AddTag :: "env \<Rightarrow> pstate \<Rightarrow> reference \<Rightarrow> digest \<Rightarrow> pstate \<times> error option" where
  "ReferenceStore_AddTag env st r i =
     (case AddTag_err (sto env) r i of
        Some e \<Rightarrow> (st, Some e)
      | None \<Rightarrow> (st\<lparr>refs := (refs st)(r \<mapsto> i)\<rparr>, None))"

text \<open>
  Modelled from the spec: \<open>addDigestReference\<close> (defined in another file of the package)
  "adds the digest association": the reference of the repository name with the manifest
  digest is associated with the image ID.
\<close>

definition addDigestReference :: "env \<Rightarrow> pstate \<Rightarrow> reference \<Rightarrow> digest \<Rightarrow> digest \<Rightarrow> pstate \<times> error option" where
  "addDigestReference env st r dgst i =
     (case WithDigest_err (lib env) dgst of
        Some e \<Rightarrow> (st, Some e)
      | None \<Rightarrow> ReferenceStore_AddDigest env st (Canonical (ref_name r) dgst) i)"

definition progress_Message :: "pstate \<Rightarrow> string \<Rightarrow> string \<Rightarrow> pstate" where
  "progress_Message st i m = st\<lparr>out := out st @ [(i, m)]\<rparr>"

section \<open>Schema1 manifests\<close>

text \<open>\<open>verifySchema1Manifest\<close>: the digest of a pull by digest first, then the shape.\<close>

definition verifySchema1Manifest :: "env \<Rightarrow> SignedManifest \<Rightarrow> reference \<Rightarrow> error + SignedManifest" where
  "verifySchema1Manifest env signedManifest r =
     (if (case r of Canonical n d \<Rightarrow> \<not> Verified env d (Canonical_bytes signedManifest) | _ \<Rightarrow> False)
        then Inl (Errorf ''image verification failed for digest'')
      else if SchemaVersion signedManifest \<noteq> 1
        then Inl (Errorf ''unsupported schema version'')
      else if length (FSLayers signedManifest) \<noteq> length (History signedManifest)
        then Inl (Errorf ''length of history not equal to number of layers'')
      else if length (FSLayers signedManifest) = 0
        then Inl (Errorf ''no FSLayers in manifest'')
      else Inr signedManifest)"

text \<open>
  \<open>fixManifestLayers\<close>, first loop: one \<open>V1Image\<close> per entry of \<open>FSLayers\<close>, decoded from
  the history entry of the same index and its ID validated. Reading a history entry
  that does not exist panics.
\<close>

fun unmarshal_imgs :: "env \<Rightarrow> nat \<Rightarrow> string list \<Rightarrow> error + V1Image list" where
  "unmarshal_imgs env 0 hs = Inr []"
| "unmarshal_imgs env (Suc n) [] = Inl (Panic ''index out of range'')"
| "unmarshal_imgs env (Suc n) (h # hs) =
     (case unmarshal_V1Image (v1 env) h of
        Inl e \<Rightarrow> Inl e
      | Inr img \<Rightarrow>
          (case ValidateID (v1 env) (ID img) of
             Some e \<Rightarrow> Inl e
           | None \<Rightarrow>
               (case unmarshal_imgs env n hs of
                  Inl e \<Rightarrow> Inl e
                | Inr imgs \<Rightarrow> Inr (img # imgs))))"

text \<open>
  Second loop: \<open>idmap\<close> holds the IDs seen, \<open>lastID\<close> the previous one; an ID seen before
  that is not the previous one is an error.
\<close>

fun check_duplicates :: "string set \<Rightarrow> string \<Rightarrow> V1Image list \<Rightarrow> error option" where
  "check_duplicates idmap lastID [] = None"
| "check_duplicates idmap lastID (img # imgs) =
     (if ID img \<noteq> lastID \<and> ID img \<in> idmap
        then Some (Errorf (''ID '' @ ID img @ '' appears multiple times in manifest''))
      else check_duplicates (insert (ID img) idmap) (ID img) imgs)"

definition remove_index :: "nat \<Rightarrow> 'a list \<Rightarrow> 'a list" where
  "remove_index i xs = take i xs @ drop (i + 1) xs"

text \<open>
  Third loop, \<open>for i := len(imgs) - 2; i >= 0; i--\<close>; the argument is \<open>i + 1\<close>. \<open>imgs\<close> is
  not changed while entries are removed from the manifest, and the entries below \<open>i\<close>
  keep their index, so entry \<open>i\<close> of the manifest is still the one \<open>imgs[i]\<close> was decoded
  from.
\<close>

fun remove_repeated :: "V1Image list \<Rightarrow> nat \<Rightarrow> 'a schema1_Manifest_scheme \<Rightarrow> error + 'a schema1_Manifest_scheme" where
  "remove_repeated imgs 0 m = Inr m"
| "remove_repeated imgs (Suc i) m =
     (if ID (imgs ! i) = ID (imgs ! (i + 1))
        then remove_repeated imgs i
               (m\<lparr>FSLayers := remove_index i (FSLayers m), History := remove_index i (History m)\<rparr>)
      else if Parent (imgs ! i) \<noteq> ID (imgs ! (i + 1))
        then Inl (Errorf (''invalid parent ID. Expected '' @ ID (imgs ! (i + 1)) @ '', got '' @ Parent (imgs ! i)))
      else remove_repeated imgs i m)"

definition fixManifestLayers :: "env \<Rightarrow> 'a schema1_Manifest_scheme \<Rightarrow> error + 'a schema1_Manifest_scheme" where
  "fixManifestLayers env m =
     (case unmarshal_imgs env (length (FSLayers m)) (History m) of
        Inl e \<Rightarrow> Inl e
      | Inr imgs \<Rightarrow>
          if imgs = [] then Inl (Panic ''index out of range'')
          else if Parent (last imgs) \<noteq> '''' \<and> GOOS (cfg env) \<noteq> ''windows''
            then Inl (Errorf ''invalid parent ID in the base layer of the image'')
          else
            (case check_duplicates {} '''' imgs of
               Some e \<Rightarrow> Inl e
             | None \<Rightarrow> remove_repeated imgs (length imgs - 1) m))"

text \<open>
  The descriptor loop of \<open>pullSchema1\<close>, \<open>for i := len(FSLayers) - 1; i >= 0; i--\<close>; the
  argument is \<open>i + 1\<close>. Every entry adds to the history, an entry marked throwaway adds
  no descriptor.
\<close>

fun schema1_descriptors ::
  "env \<Rightarrow> 'a schema1_Manifest_scheme \<Rightarrow> nat \<Rightarrow> layerDescriptor list \<Rightarrow> string list
     \<Rightarrow> error + layerDescriptor list \<times> string list" where
  "schema1_descriptors env m 0 descriptors history = Inr (descriptors, history)"
| "schema1_descriptors env m (Suc i) descriptors history =
     (case digest_Validate (lib env) (FSLayers m ! i) of
        Some e \<Rightarrow> Inl (Wrap e ''could not validate layer digest'')
      | None \<Rightarrow>
          if length (History m) \<le> i then Inl (Panic ''index out of range'')
          else
            (case unmarshal_throwaway (v1 env) (History m ! i) of
               Inl e \<Rightarrow> Inl e
             | Inr throwAway \<Rightarrow>
                 (case HistoryFromConfig (v1 env) (History m ! i) throwAway of
                    Inl e \<Rightarrow> Inl e
                  | Inr h \<Rightarrow>
                      if throwAway then schema1_descriptors env m i descriptors (history @ [h])
                      else schema1_descriptors env m i
                             (descriptors @ [\<lparr>ld_digest = FSLayers m ! i, ld_diffID = '''', ld_src = None\<rparr>])
                             (history @ [h]))))"

definition pullSchema1 ::
  "env \<Rightarrow> pstate \<Rightarrow> reference \<Rightarrow> SignedManifest \<Rightarrow> Platform option \<Rightarrow> pstate \<times> (error + digest \<times> digest)" where
  "pullSchema1 env st r unverifiedManifest platform =
     (if (case platform of None \<Rightarrow> False | Some p \<Rightarrow> \<not> IsOSSupported (lib env) (OS p))
        then (st, Inl (Errorf ''cannot download image with operating system''))
      else
        (case verifySchema1Manifest env unverifiedManifest r of
           Inl e \<Rightarrow> (st, Inl e)
         | Inr verifiedManifest0 \<Rightarrow>
        (case fixManifestLayers env verifiedManifest0 of
           Inl e \<Rightarrow> (st, Inl e)
         | Inr verifiedManifest \<Rightarrow>
        (case schema1_descriptors env verifiedManifest (length (FSLayers verifiedManifest)) [] [] of
           Inl e \<Rightarrow> (st, Inl e)
         | Inr (descriptors, history) \<Rightarrow>
        (case DownloadManager (cfg env) of
           None \<Rightarrow> (st, Inl (Panic ''nil pointer dereference''))
         | Some download \<Rightarrow>
        (let st1 = st\<lparr>downloads := downloads st @ [(descriptors, download descriptors)]\<rparr> in
         case download descriptors of
           Inl e \<Rightarrow> (st1, Inl e)
         | Inr resultRootFS \<Rightarrow>
        (case History verifiedManifest of
           [] \<Rightarrow> (st1, Inl (Panic ''index out of range''))
         | h0 # _ \<Rightarrow>
        (case MakeConfigFromV1Config (v1 env) h0 resultRootFS history of
           Inl e \<Rightarrow> (st1, Inl e)
         | Inr config \<Rightarrow>
        (case ImageStore_Put env st1 config of
           (st2, Inl e) \<Rightarrow> (st2, Inl e)
         | (st2, Inr imageID) \<Rightarrow>
             (st2, Inr (imageID, FromBytes (lib env) (Canonical_bytes unverifiedManifest))))))))))))"


section \<open>Schema2 and OCI manifests\<close>

definition validateMediaType :: "env \<Rightarrow> string \<Rightarrow> error option" where
  "validateMediaType env mediaType =
     (let allowedMediaTypes =
            (if length (Schema2Types (cfg env)) > 0 then Schema2Types (cfg env)
             else defaultImageTypes (lib env))
      in if mediaType \<in> set allowedMediaTypes then None
         else Some (invalidManifestClassError mediaType
                      (if mediaTypeClasses (lib env) mediaType = '''' then ''unknown''
                       else mediaTypeClasses (lib env) mediaType)))"

text \<open>
  \<open>schema2ManifestDigest\<close>; the argument is the canonical payload of the manifest
  (\<open>Payload\<close> of a deserialized manifest returns the stored bytes and no error).
\<close>

definition schema2ManifestDigest :: "env \<Rightarrow> reference \<Rightarrow> bytes \<Rightarrow> error + digest" where
  "schema2ManifestDigest env r canonical =
     (case r of
        Canonical n d \<Rightarrow>
          if \<not> Verified env d canonical then Inl (Errorf ''manifest verification failed for digest'')
          else Inr d
      | _ \<Rightarrow> Inr (FromBytes (lib env) canonical))"

function show_nat :: "nat \<Rightarrow> string" where
  "show_nat n =
     (if n < 10 then [char_of (48 + n)] else show_nat (n div 10) @ [char_of (48 + n mod 10)])"
  by pat_completeness auto
termination
  by (relation "measure id") auto

definition defaultMaxSchemaPullAttempts :: nat where
  "defaultMaxSchemaPullAttempts = 5"

text \<open>
  \<open>retry\<close>. The closure \<open>f\<close> assigns to a variable of its caller; here it takes the
  number of the attempt and that variable and returns the variable with its error. The
  arguments \<open>attempt\<close> and \<open>err\<close> are the loop's variables; \<open>errors.Wrapf\<close> of a nil error
  is nil.
\<close>

function retry ::
  "env \<Rightarrow> nat \<Rightarrow> (nat \<Rightarrow> 's \<Rightarrow> 's \<times> error option) \<Rightarrow> nat \<Rightarrow> 's \<Rightarrow> error option \<Rightarrow> 's \<times> error option" where
  "retry env maxAttempts f attempt s err =
     (if attempt < maxAttempts then
        (case f attempt s of
           (s', None) \<Rightarrow> (s', None)
         | (s', Some e0) \<Rightarrow>
             (let e = retryOnError (lib env) e0 in
              if IsDoNotRetryError e
                then (s', Some (Wrap e (''download failed after attempts='' @ show_nat (attempt + 1))))
              else if attempt + 1 < maxAttempts then
                (case ctx_Done (reg env) attempt of
                   Some c \<Rightarrow> (s', Some c)
                 | None \<Rightarrow> retry env maxAttempts f (attempt + 1) s' (Some e))
              else retry env maxAttempts f (attempt + 1) s' (Some e)))
      else
        (case err of
           None \<Rightarrow> (s, None)
         | Some e \<Rightarrow> (s, Some (Wrap e (''download failed after attempts='' @ show_nat (attempt + 1))))))"
  by pat_completeness auto
termination
  by (relation "measure (\<lambda>(env, maxAttempts, f, attempt, s, err). maxAttempts - attempt)") auto

definition pullSchema2Config :: "env \<Rightarrow> digest \<Rightarrow> error + bytes" where
  "pullSchema2Config env dgst =
     (case retry env defaultMaxSchemaPullAttempts
             (\<lambda>attempt configJSON.
                case blobs_Get (reg env) attempt dgst of
                  Inl e \<Rightarrow> ([], Some e)
                | Inr b \<Rightarrow> (b, None))
             0 [] None of
        (configJSON, Some e) \<Rightarrow> Inl e
      | (configJSON, None) \<Rightarrow>
          if \<not> Verified env dgst configJSON
            then Inl (Errorf ''image config verification failed for digest'')
          else Inr configJSON)"

text \<open>
  \<open>receiveConfig\<close> waits for what the goroutine that pulls the configuration sends:
  the configuration, or its error as an \<open>imageConfigPullError\<close>.
\<close>

definition receiveConfig :: "env \<Rightarrow> error + bytes \<Rightarrow> error + bytes \<times> DiffID list option \<times> Platform" where
  "receiveConfig env sent =
     (case sent of
        Inl e \<Rightarrow> Inl e
      | Inr configJSON \<Rightarrow>
          (case rootFSFromConfig (lib env) configJSON of
             Inl e \<Rightarrow> Inl e
           | Inr rootfs \<Rightarrow>
               (case platformFromConfig (lib env) configJSON of
                  Inl e \<Rightarrow> Inl e
                | Inr platform \<Rightarrow> Inr (configJSON, rootfs, platform))))"

fun validate_layer_digests :: "env \<Rightarrow> Descriptor list \<Rightarrow> error option" where
  "validate_layer_digests env [] = None"
| "validate_layer_digests env (d # ds) =
     (case digest_Validate (lib env) (Digest d) of
        Some e \<Rightarrow> Some (Wrap e ''could not validate layer digest'')
      | None \<Rightarrow> validate_layer_digests env ds)"

text \<open>
  The block of \<open>pullSchema2Layers\<close> under \<open>runtime.GOOS == "windows"\<close>: the configuration
  is received before the download starts. It yields the configuration, the descriptors
  with their diff-IDs filled in, and the operating system of the layer store.
\<close>

definition pullSchema2Layers_windows ::
  "env \<Rightarrow> error + bytes \<Rightarrow> layerDescriptor list \<Rightarrow> Platform option \<Rightarrow> string
     \<Rightarrow> error + (bytes \<times> DiffID list) \<times> layerDescriptor list \<times> string" where
  "pullSchema2Layers_windows env sent descriptors platform layerStoreOS =
     (case receiveConfig env sent of
        Inl e \<Rightarrow> Inl e
      | Inr (configJSON, None, configPlatform) \<Rightarrow> Inl errRootFSInvalid
      | Inr (configJSON, Some configRootFS, configPlatform) \<Rightarrow>
          (case checkImageCompatibility (lib env) (OS configPlatform) (OSVersion configPlatform) of
             Some e \<Rightarrow> Inl e
           | None \<Rightarrow>
               if length descriptors \<noteq> length configRootFS then Inl errRootFSMismatch
               else if platform = None \<and> \<not> IsOSSupported (lib env) (OS configPlatform)
                 then Inl (Errorf ''cannot download image with operating system'')
               else Inr ((configJSON, configRootFS),
                         map (\<lambda>(d, i). d\<lparr>ld_diffID := i\<rparr>) (zip descriptors configRootFS),
                         if platform = None then OS configPlatform else layerStoreOS)))"

text \<open>
  \<open>pullSchema2Layers\<close>. The configuration is pulled by one goroutine and the layers are
  downloaded by another; \<open>sent\<close> is what the first sends. The function receives the
  configuration first and prefers its error, then the result of the download. The
  download is started before the configuration is received (except on Windows), so the
  call of the download manager is recorded also when the configuration then fails.
  The function is given in parts, in the order of its text: the block for Windows
  above, the goroutine of the configuration, the start of the download, the part from the receipt of the configuration to
  the commit, and the whole.
\<close>

text \<open>The goroutine that pulls the image configuration and sends it or its error.\<close>

definition pullSchema2Layers_config :: "env \<Rightarrow> digest \<Rightarrow> error + bytes" where
  "pullSchema2Layers_config env dgst =
     (case pullSchema2Config env dgst of
        Inl e \<Rightarrow> Inl (imageConfigPullError e)
      | Inr configJSON \<Rightarrow> Inr configJSON)"

definition pullSchema2Layers_download ::
  "env \<Rightarrow> pstate \<Rightarrow> layerDescriptor list \<Rightarrow> pstate \<times> (error + DiffID list option)" where
  "pullSchema2Layers_download env st descriptors =
     (case DownloadManager (cfg env) of
        None \<Rightarrow> (st, Inr None)
      | Some download \<Rightarrow>
          (st\<lparr>downloads := downloads st @ [(descriptors, download descriptors)]\<rparr>,
           case download descriptors of Inl e \<Rightarrow> Inl e | Inr rootFS \<Rightarrow> Inr (Some rootFS)))"

definition pullSchema2Layers_assemble ::
  "env \<Rightarrow> pstate \<Rightarrow> (bytes \<times> DiffID list) option \<Rightarrow> error + bytes \<Rightarrow> error + DiffID list option
     \<Rightarrow> pstate \<times> (error + digest)" where
  "pullSchema2Layers_assemble env st received sent downloaded =
     (case (case received of
              Some c \<Rightarrow> Inr c
            | None \<Rightarrow>
                (case receiveConfig env sent of
                   Inl e \<Rightarrow> Inl e
                 | Inr (configJSON, None, p) \<Rightarrow> Inl errRootFSInvalid
                 | Inr (configJSON, Some configRootFS, p) \<Rightarrow> Inr (configJSON, configRootFS))) of
        Inl e \<Rightarrow> (st, Inl e)
      | Inr (configJSON, configRootFS) \<Rightarrow>
          (case downloaded of
             Inl e \<Rightarrow> (st, Inl e)
           | Inr downloadedRootFS \<Rightarrow>
               if (case downloadedRootFS of
                     None \<Rightarrow> False
                   | Some d \<Rightarrow>
                       length d \<noteq> length configRootFS
                       \<or> list_ex (\<lambda>i. d ! i \<noteq> configRootFS ! i) [0..<length d])
                 then (st, Inl errRootFSMismatch)
               else ImageStore_Put env st configJSON))"

definition pullSchema2Layers ::
  "env \<Rightarrow> pstate \<Rightarrow> Descriptor \<Rightarrow> Descriptor list \<Rightarrow> Platform option \<Rightarrow> pstate \<times> (error + digest)" where
  "pullSchema2Layers env st target layers platform =
     (case ImageStore_Get st (Digest target) of
        Inr _ \<Rightarrow> (st, Inr (Digest target))
      | Inl _ \<Rightarrow>
     (case validate_layer_digests env layers of
        Some e \<Rightarrow> (st, Inl e)
      | None \<Rightarrow>
     (let descriptors0 = map (\<lambda>d. \<lparr>ld_digest = Digest d, ld_diffID = '''', ld_src = Some d\<rparr>) layers;
          sent = pullSchema2Layers_config env (Digest target);
          layerStoreOS0 = (case platform of None \<Rightarrow> GOOS (cfg env) | Some p \<Rightarrow> OS p)
      in
      case (if GOOS (cfg env) = ''windows''
              then (case pullSchema2Layers_windows env sent descriptors0 platform layerStoreOS0 of
                      Inl e \<Rightarrow> Inl e
                    | Inr (c, ds, os) \<Rightarrow> Inr (Some c, ds, os))
            else Inr (None, descriptors0, layerStoreOS0)) of
        Inl e \<Rightarrow> (st, Inl e)
      | Inr (received, descriptors, layerStoreOS) \<Rightarrow>
          if layerStoreOS \<noteq> '''' \<and> \<not> IsOSSupported (lib env) layerStoreOS
            then (st, Inl ErrNotSupportedOperatingSystem)
          else
            (case pullSchema2Layers_download env st descriptors of
               (st1, downloaded) \<Rightarrow> pullSchema2Layers_assemble env st1 received sent downloaded))))"

definition pullSchema2 ::
  "env \<Rightarrow> pstate \<Rightarrow> reference \<Rightarrow> DeserializedManifest \<Rightarrow> Platform option \<Rightarrow> pstate \<times> (error + digest \<times> digest)" where
  "pullSchema2 env st r mfst platform =
     (case schema2ManifestDigest env r (Payload mfst) of
        Inl e \<Rightarrow> (st, Inl e)
      | Inr manifestDigest \<Rightarrow>
          (case pullSchema2Layers env st (Config mfst) (Layers mfst) platform of
             (st1, Inl e) \<Rightarrow> (st1, Inl e)
           | (st1, Inr i) \<Rightarrow> (st1, Inr (i, manifestDigest))))"

definition pullOCI ::
  "env \<Rightarrow> pstate \<Rightarrow> reference \<Rightarrow> DeserializedManifest \<Rightarrow> Platform option \<Rightarrow> pstate \<times> (error + digest \<times> digest)" where
  "pullOCI env st r mfst platform =
     (case schema2ManifestDigest env r (Payload mfst) of
        Inl e \<Rightarrow> (st, Inl e)
      | Inr manifestDigest \<Rightarrow>
          (case pullSchema2Layers env st (Config mfst) (Layers mfst) platform of
             (st1, Inl e) \<Rightarrow> (st1, Inl e)
           | (st1, Inr i) \<Rightarrow> (st1, Inr (i, manifestDigest))))"

section \<open>Manifest lists, tags and repositories\<close>

text \<open>
  \<open>toOCIPlatform\<close>: no platform when every string is empty and both slices are nil,
  otherwise the platform without \<open>Features\<close>.
\<close>

definition toOCIPlatform :: "Platform \<Rightarrow> Platform option" where
  "toOCIPlatform p =
     (if OS p = '''' \<and> Architecture p = '''' \<and> Variant p = '''' \<and> OSVersion p = ''''
         \<and> OSFeatures p = None \<and> Features p = None
        then None
      else Some (p\<lparr>Features := None\<rparr>))"

definition zero_Platform :: Platform where
  "zero_Platform = \<lparr>Architecture = '''', OS = '''', OSVersion = '''', OSFeatures = None,
                    Variant = '''', Features = None\<rparr>"

text \<open>
  \<open>pullManifestList\<close> calls itself for a manifest list inside a manifest list, and the
  nesting is whatever the registry serves: the recursion need not end. The first
  argument bounds the depth of the nesting; the result is \<open>None\<close> when it is exhausted.
  \<open>pullManifestMatches\<close> is the loop over \<open>manifestMatches\<close>. In the case of a nested
  list the loop goes on to the next match when the error of the nested pull is not a
  \<open>noMatchesErr\<close>, and returns the error when it is one.
\<close>

fun pullManifestList ::
  "nat \<Rightarrow> env \<Rightarrow> pstate \<Rightarrow> reference \<Rightarrow> DeserializedManifestList \<Rightarrow> Platform option
     \<Rightarrow> (pstate \<times> (error + digest \<times> digest)) option"
and pullManifestMatches ::
  "nat \<Rightarrow> env \<Rightarrow> pstate \<Rightarrow> reference \<Rightarrow> digest \<Rightarrow> Platform \<Rightarrow> Platform option
     \<Rightarrow> ManifestDescriptor list \<Rightarrow> (pstate \<times> (error + digest \<times> digest)) option" where
  "pullManifestList 0 env st r mfstList pp = None"
| "pullManifestList (Suc n) env st r mfstList pp =
     (case schema2ManifestDigest env r (ListPayload mfstList) of
        Inl e \<Rightarrow> Some (st, Inl e)
      | Inr manifestListDigest \<Rightarrow>
          (let platform = (case pp of None \<Rightarrow> zero_Platform | Some p \<Rightarrow> p)
           in pullManifestMatches n env st r manifestListDigest platform pp
                (filterManifests (lib env) (Manifests mfstList) platform)))"
| "pullManifestMatches n env st r manifestListDigest platform pp [] =
     Some (st, Inl (noMatchesErr platform))"
| "pullManifestMatches n env st r manifestListDigest platform pp (match # rest) =
     (case checkImageCompatibility (lib env) (OS (MPlatform match)) (OSVersion (MPlatform match)) of
        Some e \<Rightarrow> Some (st, Inl e)
      | None \<Rightarrow>
     (case manifestStore_Get (reg env)
             \<lparr>MediaType = MediaType match, Size = Size match, Digest = Digest match\<rparr> of
        Inl e \<Rightarrow> Some (st, Inl e)
      | Inr manifest \<Rightarrow>
     (case WithDigest_err (lib env) (Digest match) of
        Some e \<Rightarrow> Some (st, Inl e)
      | None \<Rightarrow>
     (let manifestRef = Canonical (ref_name r) (Digest match) in
      case manifest of
        Some (Schema1 v) \<Rightarrow>
          (case pullSchema1 env
                  (progress_Message st '''' ''[DEPRECATION NOTICE] v2 schema1 manifests in manifest lists are not supported and will break in a future release.'')
                  manifestRef v (toOCIPlatform (MPlatform match)) of
             (st1, Inl e) \<Rightarrow> Some (st1, Inl e)
           | (st1, Inr (i, _)) \<Rightarrow> Some (st1, Inr (i, manifestListDigest)))
      | Some (Schema2 v) \<Rightarrow>
          (case pullSchema2 env st manifestRef v (toOCIPlatform (MPlatform match)) of
             (st1, Inl e) \<Rightarrow> Some (st1, Inl e)
           | (st1, Inr (i, _)) \<Rightarrow> Some (st1, Inr (i, manifestListDigest)))
      | Some (OCI v) \<Rightarrow>
          (case pullOCI env st manifestRef v (toOCIPlatform (MPlatform match)) of
             (st1, Inl e) \<Rightarrow> Some (st1, Inl e)
           | (st1, Inr (i, _)) \<Rightarrow> Some (st1, Inr (i, manifestListDigest)))
      | Some (ManifestList v) \<Rightarrow>
          (case pullManifestList n env st manifestRef v pp of
             None \<Rightarrow> None
           | Some (st1, Inl e) \<Rightarrow>
               if \<not> As_noMatchesErr e
                 then pullManifestMatches n env st1 r manifestListDigest platform pp rest
               else Some (st1, Inl e)
           | Some (st1, Inr (i, _)) \<Rightarrow> Some (st1, Inr (i, manifestListDigest)))
      | _ \<Rightarrow> pullManifestMatches n env st r manifestListDigest platform pp rest))))"

text \<open>
  \<open>pullTag\<close>, up to the type switch: the reference is resolved, the manifest fetched
  (by tag if the registry does not find it by digest), the media type of a schema2
  configuration checked, and the puller of the manifest's type called. The result is
  the image ID and the manifest digest. \<open>tagOrDigest\<close>, the second component of what
  \<open>pullTag_manifest\<close> returns, is \<open>String()\<close> of a reference with a digest and the tag
  of a tagged one.
\<close>

definition pullTag_manifest ::
  "env \<Rightarrow> pstate \<Rightarrow> reference \<Rightarrow> pstate \<times> (error + manifest option \<times> string)" where
  "pullTag_manifest env st r =
     (case r of
        NameOnly n \<Rightarrow>
          (st, Inl (Errorf (''internal error: reference has neither a tag nor a digest: ''
                              @ FamiliarString (lib env) r)))
      | Canonical n dgst \<Rightarrow>
          (case manifestStore_Get (reg env) \<lparr>MediaType = '''', Size = 0, Digest = dgst\<rparr> of
             Inl e \<Rightarrow> (st, Inl e)
           | Inr m \<Rightarrow> (st, Inr (m, reference_String (lib env) r)))
      | Tagged n tag \<Rightarrow>
          (case tags_Get (reg env) tag of
             Inl e \<Rightarrow> (st, Inl e)
           | Inr desc \<Rightarrow>
               (case manifestStore_Get (reg env)
                       \<lparr>MediaType = MediaType desc, Size = Size desc, Digest = Digest desc\<rparr> of
                  Inr m \<Rightarrow> (st, Inr (m, tag))
                | Inl e \<Rightarrow>
                    if isNotFound (lib env) e then
                      (let st1 = progress_Message st ''WARNING''
                                   ''Failed to pull manifest by the resolved digest. This registry does not appear to conform to the distribution registry specification; falling back to pull by tag.  This fallback is DEPRECATED, and will be removed in a future release.''
                       in case fallback_Manifests_err (reg env) of
                            Some e1 \<Rightarrow> (st1, Inl e1)
                          | None \<Rightarrow>
                              (case manifests_Get_WithTag (reg env) tag of
                                 Inl e2 \<Rightarrow> (st1, Inl (Wrap e2 ''error after falling back to get manifest by tag''))
                               | Inr m \<Rightarrow> (st1, Inr (m, tag))))
                    else (st, Inl e))))"

definition pullTag_content ::
  "nat \<Rightarrow> env \<Rightarrow> pstate \<Rightarrow> reference \<Rightarrow> Platform option
     \<Rightarrow> (pstate \<times> (error + digest \<times> digest)) option" where
  "pullTag_content fuel env st r platform =
     (case pullTag_manifest env st r of
        (st1, Inl e) \<Rightarrow> Some (st1, Inl e)
      | (st1, Inr (None, tagOrDigest)) \<Rightarrow>
          Some (st1, Inl (Errorf (''image manifest does not exist for tag or digest '' @ tagOrDigest)))
      | (st1, Inr (Some manifest, tagOrDigest)) \<Rightarrow>
          (case (case manifest of
                   Schema2 m \<Rightarrow> validateMediaType env (MediaType (Config m))
                 | _ \<Rightarrow> None) of
             Some e \<Rightarrow> Some (st1, Inl e)
           | None \<Rightarrow>
               (let st2 = progress_Message st1 tagOrDigest
                            (''Pulling from '' @ FamiliarString (lib env) (NameOnly (ref_name r)))
                in case manifest of
                     Schema1 v \<Rightarrow>
                       if RequireSchema2 (cfg env) then Some (st2, Inl (Errorf ''invalid manifest: not schema2''))
                       else Some (pullSchema1 env
                              (if Domain (lib env) r = ''docker.io''
                                 then progress_Message st2 '''' ''Image uses outdated schema1 manifest format. Please upgrade to a schema2 image for better future compatibility.''
                               else st2)
                              r v platform)
                   | Schema2 v \<Rightarrow> Some (pullSchema2 env st2 r v platform)
                   | OCI v \<Rightarrow> Some (pullOCI env st2 r v platform)
                   | ManifestList v \<Rightarrow> pullManifestList fuel env st2 r v platform
                   | UnknownManifest \<Rightarrow> Some (st2, Inl invalidManifestFormatError))))"

text \<open>
  \<open>pullTag\<close>, after the type switch: the digest is reported and the Reference Store
  brought up to date. The result is \<open>tagUpdated\<close>, or the error (with which the code
  always returns \<open>false\<close>).
\<close>

definition pullTag_references ::
  "env \<Rightarrow> pstate \<Rightarrow> reference \<Rightarrow> digest \<Rightarrow> digest \<Rightarrow> pstate \<times> (error + bool)" where
  "pullTag_references env st r i manifestDigest =
     (let st0 = progress_Message st '''' (''Digest: '' @ manifestDigest);
          add = (case r of
                   Canonical n d \<Rightarrow>
                     (case ReferenceStore_AddDigest env st0 r i of
                        (st1, Some e) \<Rightarrow> (st1, Inl e)
                      | (st1, None) \<Rightarrow> (st1, Inr True))
                 | _ \<Rightarrow>
                     (case addDigestReference env st0 r manifestDigest i of
                        (st1, Some e) \<Rightarrow> (st1, Inl e)
                      | (st1, None) \<Rightarrow>
                          (case ReferenceStore_AddTag env st1 r i of
                             (st2, Some e) \<Rightarrow> (st2, Inl e)
                           | (st2, None) \<Rightarrow> (st2, Inr True))))
      in if has_ReferenceStore (cfg env) then
           (case ReferenceStore_Get env st0 r of
              Inr oldTagID \<Rightarrow>
                if oldTagID = i then
                  (case addDigestReference env st0 r manifestDigest i of
                     (st1, Some e) \<Rightarrow> (st1, Inl e)
                   | (st1, None) \<Rightarrow> (st1, Inr False))
                else add
            | Inl e \<Rightarrow> if e \<noteq> ErrDoesNotExist then (st0, Inl e) else add)
         else (st0, Inr True))"

definition pullTag ::
  "nat \<Rightarrow> env \<Rightarrow> pstate \<Rightarrow> reference \<Rightarrow> Platform option \<Rightarrow> (pstate \<times> (error + bool)) option" where
  "pullTag fuel env st r platform =
     (case pullTag_content fuel env st r platform of
        None \<Rightarrow> None
      | Some (st1, Inl e) \<Rightarrow> Some (st1, Inl e)
      | Some (st1, Inr (i, manifestDigest)) \<Rightarrow> Some (pullTag_references env st1 r i manifestDigest))"

definition writeStatus :: "pstate \<Rightarrow> string \<Rightarrow> bool \<Rightarrow> pstate" where
  "writeStatus st requestedTag layersDownloaded =
     (if layersDownloaded
        then progress_Message st '''' (''Status: Downloaded newer image for '' @ requestedTag)
      else progress_Message st '''' (''Status: Image is up to date for '' @ requestedTag))"

text \<open>The loop of \<open>pullRepository\<close> over all tags of the repository.\<close>

fun pullAllTags ::
  "nat \<Rightarrow> env \<Rightarrow> pstate \<Rightarrow> reference \<Rightarrow> string list \<Rightarrow> bool \<Rightarrow> (pstate \<times> (error + bool)) option" where
  "pullAllTags fuel env st r [] layersDownloaded = Some (st, Inr layersDownloaded)"
| "pullAllTags fuel env st r (tag # tags) layersDownloaded =
     (case WithTag_err (lib env) tag of
        Some e \<Rightarrow> Some (st, Inl e)
      | None \<Rightarrow>
          (case pullTag fuel env st (Tagged (ref_name r) tag) (cfg_Platform (cfg env)) of
             None \<Rightarrow> None
           | Some (st1, Inl e) \<Rightarrow>
               Some (st1, Inl (case e of fallbackError e' t \<Rightarrow> e' | _ \<Rightarrow> e))
           | Some (st1, Inr pulledNew) \<Rightarrow>
               pullAllTags fuel env st1 r tags (layersDownloaded \<or> pulledNew)))"

definition pullRepository :: "nat \<Rightarrow> env \<Rightarrow> pstate \<Rightarrow> reference \<Rightarrow> (pstate \<times> error option) option" where
  "pullRepository fuel env st r =
     (case (if \<not> IsNameOnly r then pullTag fuel env st r (cfg_Platform (cfg env))
            else (case tags_All (reg env) of
                    Inl e \<Rightarrow> Some (st, Inl e)
                  | Inr tags \<Rightarrow> pullAllTags fuel env st r tags False)) of
        None \<Rightarrow> None
      | Some (st1, Inl e) \<Rightarrow> Some (st1, Some e)
      | Some (st1, Inr layersDownloaded) \<Rightarrow>
          Some (writeStatus st1 (FamiliarString (lib env) r) layersDownloaded, None))"

definition pull :: "nat \<Rightarrow> env \<Rightarrow> pstate \<Rightarrow> reference \<Rightarrow> (pstate \<times> error option) option" where
  "pull fuel env st r =
     (case newRepository_err (reg env) of
        Some e \<Rightarrow> Some (st, Some e)
      | None \<Rightarrow>
          (case repo_Manifests_err (reg env) of
             Some e \<Rightarrow> Some (st, Some e)
           | None \<Rightarrow>
               (case pullRepository fuel env st r of
                  None \<Rightarrow> None
                | Some (st1, None) \<Rightarrow> Some (st1, None)
                | Some (st1, Some e) \<Rightarrow>
                    (case e of
                       fallbackError e' t \<Rightarrow> Some (st1, Some e)
                     | _ \<Rightarrow>
                         if continueOnError (lib env) e (endpoint_Mirror (cfg env))
                           then Some (st1, Some (fallbackError e True))
                         else Some (st1, Some e)))))"

section \<open>Downloading a layer (layerDescriptor.Download)\<close>

text \<open>
  The download state of a \<open>layerDescriptor\<close>: its temporary file and its digest
  verifier, each nil (\<open>None\<close>) or present. The file is only ever written at its end
  (a new file is empty, a file kept from an earlier attempt is sought to its end, a
  truncated file is empty), so it is represented by its contents; the verifier is
  represented by the bytes written to it so far.
\<close>

record layerDescriptor_state = layerDescriptor +
  tmpFile :: "bytes option"
  verifier :: "bytes option"

text \<open>
  What the operating system and the registry do in one attempt: the error, if any, of
  each call, the size the remote stream reports, and what the stream delivers when it
  is read from an offset (the bytes and the error that ends it, if any).
\<close>

record attempt =
  createDownloadFile_err :: "error option"
  tmpFile_SeekEnd_err :: "error option"
  open_err :: "error option"
  Seek_offset_err :: "error option"
  Seek_size :: "error + nat"
  Seek_restore_err :: "error option"
  Copy :: "nat \<Rightarrow> bytes \<times> error option"
  truncate_Seek_err :: "error option"
  Truncate_err :: "error option"
  tmpFile_SeekStart_err :: "error option"

definition truncateDownloadFile ::
  "attempt \<Rightarrow> 'a layerDescriptor_state_scheme \<Rightarrow> 'a layerDescriptor_state_scheme \<times> error option" where
  "truncateDownloadFile io ld =
     (let ld1 = ld\<lparr>verifier := None\<rparr> in
      case tmpFile ld1 of
        None \<Rightarrow> (ld1, Some (Other ''invalid argument''))
      | Some content \<Rightarrow>
          (case truncate_Seek_err io of
             Some e \<Rightarrow> (ld1, Some e)
           | None \<Rightarrow>
               (case Truncate_err io of
                  Some e \<Rightarrow> (ld1, Some e)
                | None \<Rightarrow> (ld1\<lparr>tmpFile := Some []\<rparr>, None))))"

text \<open>
  \<open>Download\<close> in the order of its text. First the temporary file and the offset to
  resume from: a new file when there is none or when seeking in the old one fails, else
  the length of what the file holds.
\<close>

definition Download_file ::
  "attempt \<Rightarrow> 'a layerDescriptor_state_scheme \<Rightarrow> 'a layerDescriptor_state_scheme \<times> (error + nat)" where
  "Download_file io ld =
     (case tmpFile ld of
        None \<Rightarrow>
          (case createDownloadFile_err io of
             Some e \<Rightarrow> (ld, Inl (DoNotRetry e))
           | None \<Rightarrow> (ld\<lparr>tmpFile := Some []\<rparr>, Inr 0))
      | Some content \<Rightarrow>
          (case tmpFile_SeekEnd_err io of
             Some e \<Rightarrow>
               (case createDownloadFile_err io of
                  Some e' \<Rightarrow> (ld\<lparr>tmpFile := None\<rparr>, Inl (DoNotRetry e'))
                | None \<Rightarrow> (ld\<lparr>tmpFile := Some []\<rparr>, Inr 0))
           | None \<Rightarrow> (ld, Inr (length content))))"

text \<open>
  Then the remote stream is opened and positioned; the result is the offset the
  transfer starts from and the size of the blob (0 when unknown).
\<close>

definition Download_open ::
  "env \<Rightarrow> attempt \<Rightarrow> 'a layerDescriptor_state_scheme \<Rightarrow> nat
     \<Rightarrow> 'a layerDescriptor_state_scheme \<times> (error + nat \<times> nat)" where
  "Download_open env io ld offset =
     (case open_err io of
        Some e \<Rightarrow> (ld, Inl (retryOnError (lib env) e))
      | None \<Rightarrow>
          (case (if offset \<noteq> 0 then Seek_offset_err io else None) of
             Some e \<Rightarrow>
               (case truncateDownloadFile io ld of
                  (ld1, Some te) \<Rightarrow> (ld1, Inl (DoNotRetry te))
                | (ld1, None) \<Rightarrow> (ld1, Inl e))
           | None \<Rightarrow>
               (case Seek_size io of
                  Inl e \<Rightarrow> (ld, Inr (offset, 0))
                | Inr blobSize \<Rightarrow>
                    (case (if blobSize \<noteq> 0 \<and> offset > blobSize
                           then (case truncateDownloadFile io ld of
                                   (ld1, Some te) \<Rightarrow> (ld1, Inl (DoNotRetry te))
                                 | (ld1, None) \<Rightarrow> (ld1, Inr 0))
                           else (ld, Inr offset)) of
                       (ld1, Inl e) \<Rightarrow> (ld1, Inl e)
                     | (ld1, Inr offset1) \<Rightarrow>
                         (case Seek_restore_err io of
                            Some e \<Rightarrow> (ld1, Inl e)
                          | None \<Rightarrow> (ld1, Inr (offset1, blobSize)))))))"

text \<open>
  The transfer: what the stream delivers from the offset goes to the verifier and to
  the file. A failed range request restarts from nothing; other errors are classified
  by \<open>retryOnError\<close>.
\<close>

definition Download_copy ::
  "env \<Rightarrow> attempt \<Rightarrow> 'a layerDescriptor_state_scheme \<Rightarrow> nat
     \<Rightarrow> 'a layerDescriptor_state_scheme \<times> error option" where
  "Download_copy env io ld offset =
     (let ld1 = (if verifier ld = None then ld\<lparr>verifier := Some []\<rparr> else ld);
          ld2 = ld1\<lparr>tmpFile := map_option (\<lambda>c. c @ fst (Copy io offset)) (tmpFile ld1),
                    verifier := map_option (\<lambda>v. v @ fst (Copy io offset)) (verifier ld1)\<rparr>
      in case snd (Copy io offset) of
           None \<Rightarrow> (ld2, None)
         | Some e \<Rightarrow>
             if e = ErrWrongCodeForByteRange then
               (case truncateDownloadFile io ld2 of
                  (ld3, Some te) \<Rightarrow> (ld3, Some (DoNotRetry te))
                | (ld3, None) \<Rightarrow> (ld3, Some e))
             else (ld2, Some (retryOnError (lib env) e)))"

text \<open>
  The verification and the hand-over. \<open>verified\<close> is \<open>ld.verifier.Verified()\<close>: the
  digest of everything written to the verifier is the digest of the layer. On success
  the file is handed to the caller, which gets its contents and the size.
\<close>

definition verifier_Verified :: "env \<Rightarrow> 'a layerDescriptor_state_scheme \<Rightarrow> bool" where
  "verifier_Verified env ld =
     (case verifier ld of None \<Rightarrow> False | Some written \<Rightarrow> Verified env (ld_digest ld) written)"

definition verification_failed :: "'a layerDescriptor_state_scheme \<Rightarrow> error" where
  "verification_failed ld = Errorf (''filesystem layer verification failed for digest '' @ ld_digest ld)"

definition Download_verify ::
  "env \<Rightarrow> attempt \<Rightarrow> 'a layerDescriptor_state_scheme \<Rightarrow> nat \<Rightarrow> nat
     \<Rightarrow> 'a layerDescriptor_state_scheme \<times> (error + bytes \<times> nat)" where
  "Download_verify env io ld offset blobSize =
     (if \<not> verifier_Verified env ld then
        (if offset \<noteq> 0 then
           (case truncateDownloadFile io ld of
              (ld1, Some te) \<Rightarrow> (ld1, Inl (DoNotRetry te))
            | (ld1, None) \<Rightarrow> (ld1, Inl (verification_failed ld)))
         else (ld, Inl (DoNotRetry (verification_failed ld))))
      else
        (case tmpFile_SeekStart_err io of
           Some e \<Rightarrow> (ld\<lparr>tmpFile := None, verifier := None\<rparr>, Inl (DoNotRetry e))
         | None \<Rightarrow>
             (ld\<lparr>tmpFile := None\<rparr>, Inr (case tmpFile ld of None \<Rightarrow> [] | Some content \<Rightarrow> content, blobSize))))"

definition Download ::
  "env \<Rightarrow> attempt \<Rightarrow> 'a layerDescriptor_state_scheme
     \<Rightarrow> 'a layerDescriptor_state_scheme \<times> (error + bytes \<times> nat)" where
  "Download env io ld =
     (case Download_file io ld of
        (ld1, Inl e) \<Rightarrow> (ld1, Inl e)
      | (ld1, Inr offset0) \<Rightarrow>
          (case Download_open env io ld1 offset0 of
             (ld2, Inl e) \<Rightarrow> (ld2, Inl e)
           | (ld2, Inr (offset, blobSize)) \<Rightarrow>
               (case Download_copy env io ld2 offset of
                  (ld3, Some e) \<Rightarrow> (ld3, Inl e)
                | (ld3, None) \<Rightarrow> Download_verify env io ld3 offset blobSize)))"

section \<open>Predicates on runs\<close>

text \<open>
  What a puller may do to the two stores: it never touches the Reference Store; when
  it returns an error the Image Store is what it was; when it returns an image ID the
  Image Store holds that ID and is unchanged everywhere else.
\<close>

definition stores_ok :: "pstate \<Rightarrow> pstate \<Rightarrow> (error + digest \<times> digest) \<Rightarrow> bool" where
  "stores_ok st st' res \<longleftrightarrow>
     refs st' = refs st
     \<and> ((\<exists>e. res = Inl e) \<longrightarrow> images st' = images st)
     \<and> (\<forall>i md. res = Inr (i, md) \<longrightarrow> images st' i \<noteq> None \<and> (\<forall>k. k \<noteq> i \<longrightarrow> images st' k = images st k))"


text \<open>
  In the loop over all tags a \<open>fallbackError\<close> is replaced by the error it wraps, so that
  the failure of one tag does not make the whole pull fall back.
\<close>

fun unwrap_fallback :: "error \<Rightarrow> error" where
  "unwrap_fallback (fallbackError e t) = e"
| "unwrap_fallback e = e"

section \<open>A small registry\<close>

text \<open>
  A concrete environment for examples. The digest of a blob is the blob after the
  prefix "sha256:". An image configuration is a string in which every character is one
  diff-ID, a history entry of a schema1 manifest is "ID/Parent", and the diff-ID of a
  layer is its blob digest. The registry has the repository "app" with the tags "v1"
  (a schema2 manifest with the layers "a" and "b" and the configuration "ab"), "v2"
  (a schema2 manifest with the layer "a" only and the same configuration), "multi"
  (a manifest list: a nested manifest list without entries first, the manifest of "v1"
  second), and "multi2" (a manifest list: a nested manifest list whose only entry
  cannot be fetched first, the manifest of "v1" second).
\<close>

definition linux_amd64 :: Platform where
  "linux_amd64 = \<lparr>Architecture = ''amd64'', OS = ''linux'', OSVersion = '''', OSFeatures = None,
                  Variant = '''', Features = None\<rparr>"

definition layer_desc :: "string \<Rightarrow> Descriptor" where
  "layer_desc d = \<lparr>MediaType = ''layer'', Size = 1, Digest = d\<rparr>"

definition manifest_v1 :: DeserializedManifest where
  "manifest_v1 = \<lparr>Config = \<lparr>MediaType = ''config'', Size = 2, Digest = ''sha256:ab''\<rparr>,
                  Layers = [layer_desc ''a'', layer_desc ''b''], Payload = ''m1''\<rparr>"

definition manifest_v2 :: DeserializedManifest where
  "manifest_v2 = \<lparr>Config = \<lparr>MediaType = ''config'', Size = 2, Digest = ''sha256:ab''\<rparr>,
                  Layers = [layer_desc ''a''], Payload = ''m2''\<rparr>"

definition list_entry :: "string \<Rightarrow> ManifestDescriptor" where
  "list_entry d = \<lparr>MediaType = ''manifest'', Size = 2, Digest = d, MPlatform = linux_amd64\<rparr>"

definition manifest_inner :: DeserializedManifestList where
  "manifest_inner = \<lparr>Manifests = [], ListPayload = ''in''\<rparr>"

definition manifest_multi :: DeserializedManifestList where
  "manifest_multi = \<lparr>Manifests = [list_entry ''sha256:in'', list_entry ''sha256:m1''],
                     ListPayload = ''mm''\<rparr>"

definition manifest_inner_err :: DeserializedManifestList where
  "manifest_inner_err = \<lparr>Manifests = [list_entry ''sha256:none''], ListPayload = ''ie''\<rparr>"

definition manifest_multi2 :: DeserializedManifestList where
  "manifest_multi2 = \<lparr>Manifests = [list_entry ''sha256:ie'', list_entry ''sha256:m1''],
                      ListPayload = ''m3''\<rparr>"

definition registry0 :: registry where
  "registry0 =
     \<lparr>newRepository_err = None,
      repo_Manifests_err = None,
      fallback_Manifests_err = None,
      tags_All = Inr [''v1'', ''v2''],
      tags_Get = (\<lambda>t. if t = ''v1'' then Inr \<lparr>MediaType = ''manifest'', Size = 2, Digest = ''sha256:m1''\<rparr>
                     else if t = ''v2'' then Inr \<lparr>MediaType = ''manifest'', Size = 2, Digest = ''sha256:m2''\<rparr>
                     else if t = ''multi'' then Inr \<lparr>MediaType = ''list'', Size = 2, Digest = ''sha256:mm''\<rparr>
                     else if t = ''multi2'' then Inr \<lparr>MediaType = ''list'', Size = 2, Digest = ''sha256:m3''\<rparr>
                     else Inl (Other ''tag unknown'')),
      manifestStore_Get = (\<lambda>d. if Digest d = ''sha256:m1'' then Inr (Some (Schema2 manifest_v1))
                              else if Digest d = ''sha256:m2'' then Inr (Some (Schema2 manifest_v2))
                              else if Digest d = ''sha256:in'' then Inr (Some (ManifestList manifest_inner))
                              else if Digest d = ''sha256:mm'' then Inr (Some (ManifestList manifest_multi))
                              else if Digest d = ''sha256:ie'' then Inr (Some (ManifestList manifest_inner_err))
                              else if Digest d = ''sha256:m3'' then Inr (Some (ManifestList manifest_multi2))
                              else Inl (Other ''manifest unknown'')),
      manifests_Get_WithTag = (\<lambda>t. Inl (Other ''manifest unknown'')),
      blobs_Get = (\<lambda>n d. if d = ''sha256:ab'' then Inr ''ab'' else Inl (Other ''blob unknown'')),
      ctx_Done = (\<lambda>n. None)\<rparr>"

definition config0 :: config where
  "config0 =
     \<lparr>RequireSchema2 = False,
      Schema2Types = [],
      cfg_Platform = None,
      has_ReferenceStore = True,
      DownloadManager = Some (\<lambda>ds. Inr (map ld_digest ds)),
      endpoint_Mirror = False,
      GOOS = ''linux''\<rparr>"

definition stores0 :: stores where
  "stores0 = \<lparr>Put_err = (\<lambda>c. None), ref_Get_err = (\<lambda>r. None),
              AddDigest_err = (\<lambda>r i. None), AddTag_err = (\<lambda>r i. None)\<rparr>"

definition lib0 :: lib where
  "lib0 =
     \<lparr>FromBytes = (\<lambda>b. ''sha256:'' @ b),
      digest_Validate = (\<lambda>d. None),
      IsOSSupported = (\<lambda>os. os = ''linux''),
      checkImageCompatibility = (\<lambda>os v. None),
      filterManifests = (\<lambda>ms p. ms),
      rootFSFromConfig = (\<lambda>b. Inr (Some (map (\<lambda>c. [c]) b))),
      platformFromConfig = (\<lambda>b. Inr linux_amd64),
      retryOnError = (\<lambda>e. e),
      continueOnError = (\<lambda>e m. False),
      isNotFound = (\<lambda>e. False),
      WithTag_err = (\<lambda>t. if CHR '' '' \<in> set t then Some (Other ''invalid tag format'') else None),
      WithDigest_err = (\<lambda>d. None),
      FamiliarString = (\<lambda>r. case r of NameOnly n \<Rightarrow> n | Tagged n t \<Rightarrow> n @ '':'' @ t
                                    | Canonical n d \<Rightarrow> n @ ''@'' @ d),
      reference_String = (\<lambda>r. case r of NameOnly n \<Rightarrow> ''example.com/'' @ n
                                      | Tagged n t \<Rightarrow> ''example.com/'' @ n @ '':'' @ t
                                      | Canonical n d \<Rightarrow> ''example.com/'' @ n @ ''@'' @ d),
      Domain = (\<lambda>r. ''example.com''),
      defaultImageTypes = [''config''],
      mediaTypeClasses = (\<lambda>m. '''')\<rparr>"

definition v1lib0 :: v1lib where
  "v1lib0 =
     \<lparr>unmarshal_V1Image = (\<lambda>s. Inr \<lparr>ID = takeWhile (\<lambda>c. c \<noteq> CHR ''/'') s,
                                   Parent = drop 1 (dropWhile (\<lambda>c. c \<noteq> CHR ''/'') s)\<rparr>),
      unmarshal_throwaway = (\<lambda>s. Inr False),
      ValidateID = (\<lambda>i. None),
      HistoryFromConfig = (\<lambda>s t. Inr s),
      MakeConfigFromV1Config = (\<lambda>s r h. Inr (concat r))\<rparr>"

definition env0 :: env where
  "env0 = \<lparr>cfg = config0, reg = registry0, sto = stores0, lib = lib0, v1 = v1lib0\<rparr>"

definition state0 :: pstate where
  "state0 = \<lparr>images = Map.empty, refs = Map.empty, downloads = [], out = []\<rparr>"


text \<open>The same registry without a download manager, and a state that has the image.\<close>

definition env_nodm :: env where
  "env_nodm = env0\<lparr>cfg := config0\<lparr>DownloadManager := None\<rparr>\<rparr>"

definition state1 :: pstate where
  "state1 = state0\<lparr>images := [''sha256:ab'' \<mapsto> ''ab'']\<rparr>"






text \<open>
  The repository with a tag list that names a tag the registry cannot resolve, with a
  tag list that has a malformed tag, with a Reference Store that refuses to add tags,
  and with one that refuses to add digest associations.
\<close>

definition env_tags :: env where
  "env_tags = env0\<lparr>reg := registry0\<lparr>tags_All := Inr [''v1'', ''gone'']\<rparr>\<rparr>"

definition env_badtag :: env where
  "env_badtag = env0\<lparr>reg := registry0\<lparr>tags_All := Inr [''v1'', ''v 2'']\<rparr>\<rparr>"

definition env_readonly :: env where
  "env_readonly = env0\<lparr>sto := stores0\<lparr>AddTag_err := (\<lambda>r i. Some (Other ''read-only''))\<rparr>\<rparr>"

definition env_nodigest :: env where
  "env_nodigest = env0\<lparr>sto := stores0\<lparr>AddDigest_err := (\<lambda>r i. Some (Other ''read-only''))\<rparr>\<rparr>"

text \<open>A state in which the tag "v1" of "app" already names the image.\<close>

definition state2 :: pstate where
  "state2 = state1\<lparr>refs := [Tagged ''app'' ''v1'' \<mapsto> ''sha256:ab'']\<rparr>"

text \<open>
  A layer "abcd" of which an earlier attempt stored and verified the first two bytes;
  a registry that delivers "abXd", so that the digest cannot match; and the same
  attempt with a temporary file that cannot be truncated.
\<close>

definition ld_resumed :: layerDescriptor_state where
  "ld_resumed = \<lparr>ld_digest = ''sha256:abcd'', ld_diffID = '''', ld_src = None,
                 tmpFile = Some ''ab'', verifier = Some ''ab''\<rparr>"

definition ld_fresh :: layerDescriptor_state where
  "ld_fresh = \<lparr>ld_digest = ''sha256:abcd'', ld_diffID = '''', ld_src = None,
               tmpFile = None, verifier = None\<rparr>"

definition attempt_corrupt :: attempt where
  "attempt_corrupt =
     \<lparr>createDownloadFile_err = None, tmpFile_SeekEnd_err = None, open_err = None,
      Seek_offset_err = None, Seek_size = Inr 4, Seek_restore_err = None,
      Copy = (\<lambda>offset. (drop offset ''abXd'', None)),
      truncate_Seek_err = None, Truncate_err = None, tmpFile_SeekStart_err = None\<rparr>"

definition attempt_corrupt_stuck :: attempt where
  "attempt_corrupt_stuck = attempt_corrupt\<lparr>Truncate_err := Some (Other ''read-only file system'')\<rparr>"

text \<open>The registry used without a Reference Store.\<close>

definition env_norefs :: env where
  "env_norefs = env0\<lparr>cfg := config0\<lparr>has_ReferenceStore := False\<rparr>\<rparr>"

section \<open>The fields of the example environment\<close>

lemma env0_proj [simp]:
  "cfg env0 = config0" "reg env0 = registry0" "sto env0 = stores0" "lib env0 = lib0" "v1 env0 = v1lib0"
  by (simp_all add: env0_def)


section \<open>Properties of RootFS\<close>

lemma valid_read_len: "valid_slice h s \<Longrightarrow> length (read_slice h s) = slice_len s"
  by (cases s) auto

lemma read_write_at:
  assumes "off + n + length xs \<le> length cells"
  shows "take (n + length xs) (drop off (write_at cells (off + n) xs)) = take n (drop off cells) @ xs"
proof -
  have l: "length (take n (drop off cells)) = n" using assms by simp
  have "drop off (write_at cells (off + n) xs)
        = take n (drop off cells) @ xs @ drop (off + n + length xs) cells"
    using assms by (simp add: write_at_def drop_take)
  then show ?thesis using l by simp
qed

lemma length_write_at: "i + length xs \<le> length cells \<Longrightarrow> length (write_at cells i xs) = length cells"
  by (simp add: write_at_def)

lemma go_append_inplace:
  assumes "valid_slice h (Slice a off n c)" "n + length xs \<le> c"
  shows "go_append grow h (Slice a off n c) xs =
           (h\<lparr>arrays := (arrays h)[a := write_at (arrays h ! a) (off + n) xs]\<rparr>,
            Slice a off (n + length xs) c)"
  using assms by (simp add: go_append_def)

lemma go_append_alloc:
  assumes "\<not> slice_len s + length xs \<le> slice_cap s"
  shows "go_append grow h s xs =
        (h\<lparr>arrays := arrays h @ [read_slice h s @ xs @ replicate (grow (slice_cap s) (slice_len s + length xs)) '''']\<rparr>,
         Slice (length (arrays h)) 0 (slice_len s + length xs) (slice_len s + length xs + grow (slice_cap s) (slice_len s + length xs)))"
  using assms by (simp add: go_append_def Let_def)

lemma go_append_read:
  assumes "valid_slice h s"
  shows "case go_append grow h s xs of (h', s') \<Rightarrow>
           read_slice h' s' = read_slice h s @ xs \<and> valid_slice h' s' \<and> structs h' = structs h
           \<and> length (arrays h) \<le> length (arrays h')"
proof (cases "slice_len s + length xs \<le> slice_cap s")
  case False
  then show ?thesis using valid_read_len[OF assms]
    by (simp add: go_append_alloc)
next
  case True
  show ?thesis
  proof (cases s)
    case NilSlice
    with True show ?thesis by (simp add: go_append_def)
  next
    case (Slice a off n c)
    with True assms have b: "off + n + length xs \<le> length (arrays h ! a)" by simp
    from Slice True assms show ?thesis
      using read_write_at[OF b] length_write_at[of "off + n" xs "arrays h ! a"] b
      by (simp add: go_append_inplace)
  qed
qed

lemma read_slice_structs [simp]: "read_slice (h\<lparr>structs := x\<rparr>) s = read_slice h s"
  by (cases s) auto

lemma valid_slice_structs [simp]: "valid_slice (h\<lparr>structs := x\<rparr>) s = valid_slice h s"
  by (cases s) auto

lemma write_at_nil [simp]: "write_at cells i [] = cells"
  by (simp add: write_at_def)

text \<open>Frame: appending to s leaves every slice on another array as it was.\<close>

lemma go_append_frame:
  assumes "valid_slice h t"
    and "slice_cap s = 0 \<or> t = NilSlice \<or> s = NilSlice \<or> sarr s \<noteq> sarr t"
  shows "read_slice (fst (go_append grow h s xs)) t = read_slice h t
         \<and> valid_slice (fst (go_append grow h s xs)) t"
proof (cases "slice_len s + length xs \<le> slice_cap s")
  case False
  then show ?thesis using assms(1)
    by (cases t) (auto simp: go_append_alloc nth_append)
next
  case True
  show ?thesis
  proof (cases s)
    case NilSlice
    then show ?thesis using True assms(1) by (simp add: go_append_def)
  next
    case (Slice a off n c)
    show ?thesis
    proof (cases "c = 0")
      case True
      with \<open>slice_len s + length xs \<le> slice_cap s\<close> Slice have "xs = []" "n = 0" by auto
      then show ?thesis using Slice True assms(1)
        by (cases t) (auto simp: go_append_def)
    next
      case False
      with assms(2) Slice have "t = NilSlice \<or> a \<noteq> sarr t" by auto
      then show ?thesis using Slice True assms(1)
        by (cases t) (auto simp: go_append_def)
    qed
  qed
qed

text \<open>
  C10. After \<open>r.Append(d)\<close> the diff-IDs of \<open>r\<close> are the previous sequence followed by
  \<open>d\<close> as the single new last element: the length grows by one, the old sequence is
  the prefix, and \<open>Type\<close> is unchanged. \<open>NewRootFS()\<close> has \<open>Type\<close> "layers" and no
  diff-IDs.
\<close>

theorem RootFS_Append_NewRootFS:
  "(valid_rootfs h r \<longrightarrow>
      (\<exists>h'. Append grow h r d = Inr h' \<and> valid_rootfs h' r
            \<and> Type_of h' r = Type_of h r
            \<and> DiffIDs_of h' r = map_option (\<lambda>ds. ds @ [d]) (DiffIDs_of h r)
            \<and> map_option length (DiffIDs_of h' r) = map_option (\<lambda>ds. Suc (length ds)) (DiffIDs_of h r)
            \<and> map_option butlast (DiffIDs_of h' r) = DiffIDs_of h r
            \<and> map_option last (DiffIDs_of h' r) = Some d))
   \<and> (case NewRootFS h of (h', p) \<Rightarrow>
         valid_rootfs h' p \<and> Type_of h' p = Some ''layers'' \<and> DiffIDs_of h' p = Some [])"
proof (intro conjI impI)
  assume v: "valid_rootfs h r"
  then obtain a where r: "r = Some a" and a: "a < length (structs h)"
    and vs: "valid_slice h (DiffIDs (structs h ! a))"
    by (cases r) (auto simp: valid_rootfs_def split: if_splits)
  obtain h1 s1 where g: "go_append grow h (DiffIDs (structs h ! a)) [d] = (h1, s1)"
    by (cases "go_append grow h (DiffIDs (structs h ! a)) [d]")
  from go_append_read[OF vs, where grow=grow and xs="[d]"] g
  have p: "read_slice h1 s1 = read_slice h (DiffIDs (structs h ! a)) @ [d]"
    "valid_slice h1 s1" "structs h1 = structs h" by auto
  show "\<exists>h'. Append grow h r d = Inr h' \<and> valid_rootfs h' r
            \<and> Type_of h' r = Type_of h r
            \<and> DiffIDs_of h' r = map_option (\<lambda>ds. ds @ [d]) (DiffIDs_of h r)
            \<and> map_option length (DiffIDs_of h' r) = map_option (\<lambda>ds. Suc (length ds)) (DiffIDs_of h r)
            \<and> map_option butlast (DiffIDs_of h' r) = DiffIDs_of h r
            \<and> map_option last (DiffIDs_of h' r) = Some d"
    using r a g p by (simp add: Append_def valid_rootfs_def Type_of_def DiffIDs_of_def)
next
  show "case NewRootFS h of (h', p) \<Rightarrow>
         valid_rootfs h' p \<and> Type_of h' p = Some ''layers'' \<and> DiffIDs_of h' p = Some []"
    by (simp add: NewRootFS_def valid_rootfs_def Type_of_def DiffIDs_of_def TypeLayers_def)
qed


lemma reslice_0_0_props:
  "valid_slice h s \<Longrightarrow> valid_slice h (reslice_0_0 s)"
  "read_slice h (reslice_0_0 s) = []"
  "slice_cap (reslice_0_0 s) = 0"
  by (cases s; simp)+

lemma slices_Clone_props:
  assumes "valid_slice h s"
  obtains h1 s1 where "slices_Clone grow h s = (h1, s1)"
    and "read_slice h1 s1 = read_slice h s" and "valid_slice h1 s1"
    and "structs h1 = structs h"
    and "\<And>t. valid_slice h t \<Longrightarrow> read_slice h1 t = read_slice h t \<and> valid_slice h1 t"
    and "slice_cap s1 = 0 \<or> s1 = NilSlice \<or> length (arrays h) \<le> sarr s1"
proof -
  obtain h1 s1 where c: "slices_Clone grow h s = (h1, s1)"
    by (cases "slices_Clone grow h s")
  have g: "go_append grow h (reslice_0_0 s) (read_slice h s) = (h1, s1)"
    using c by (simp add: slices_Clone_def)
  from go_append_read[OF reslice_0_0_props(1)[OF assms], where grow=grow and xs="read_slice h s"] g
  have p: "read_slice h1 s1 = read_slice h s" "valid_slice h1 s1" "structs h1 = structs h"
    by (auto simp: reslice_0_0_props)
  have f: "\<And>t. valid_slice h t \<Longrightarrow> read_slice h1 t = read_slice h t \<and> valid_slice h1 t"
    using go_append_frame[where s="reslice_0_0 s" and grow=grow and xs="read_slice h s" and h=h] g
    by (simp add: reslice_0_0_props)
  have k: "slice_cap s1 = 0 \<or> s1 = NilSlice \<or> length (arrays h) \<le> sarr s1"
    using g by (cases s) (auto simp: go_append_def Let_def split: if_splits)
  from c p f k that show thesis by blast
qed

theorem RootFS_Append_NewRootFS_witness:
  "valid_rootfs heap0 (Some 0) \<and>
   (\<exists>h'. Append (\<lambda>c n. n) heap0 (Some 0) ''d3'' = Inr h'
         \<and> DiffIDs_of h' (Some 0) = Some [''d1'', ''d2'', ''d3'']
         \<and> Type_of h' (Some 0) = Some ''layers'')"
proof -
  have v: "valid_rootfs heap0 (Some 0)"
    by (simp add: valid_rootfs_def heap0_def)
  have o: "DiffIDs_of heap0 (Some 0) = Some [''d1'', ''d2'']" "Type_of heap0 (Some 0) = Some ''layers''"
    by (simp_all add: DiffIDs_of_def Type_of_def heap0_def)
  from RootFS_Append_NewRootFS [of heap0 "Some 0" "\<lambda>c n. n" "''d3''"] v
  obtain h' where "Append (\<lambda>c n. n) heap0 (Some 0) ''d3'' = Inr h'"
    "Type_of h' (Some 0) = Type_of heap0 (Some 0)"
    "DiffIDs_of h' (Some 0) = map_option (\<lambda>ds. ds @ [''d3'']) (DiffIDs_of heap0 (Some 0))"
    by blast
  with v o show ?thesis by simp
qed

text \<open>
  C9. \<open>r.Clone()\<close> is a new \<open>RootFS\<close> with the \<open>Type\<close> of \<open>r\<close> and the same diff-IDs,
  element for element; \<open>r\<close> itself is untouched, and an \<open>Append\<close> to the clone
  afterwards changes the clone only: the diff-IDs of \<open>r\<close> stay what they were.
\<close>

theorem RootFS_Clone_equal_independent:
  assumes "valid_rootfs h r"
  shows "\<exists>h1 c. Clone grow h r = Inr (h1, c) \<and> c \<noteq> r \<and> valid_rootfs h1 c
           \<and> Type_of h r \<noteq> None \<and> DiffIDs_of h r \<noteq> None
           \<and> Type_of h1 c = Type_of h r \<and> DiffIDs_of h1 c = DiffIDs_of h r
           \<and> Type_of h1 r = Type_of h r \<and> DiffIDs_of h1 r = DiffIDs_of h r
           \<and> (\<forall>d. \<exists>h2. Append grow h1 c d = Inr h2
                  \<and> DiffIDs_of h2 c = map_option (\<lambda>ds. ds @ [d]) (DiffIDs_of h r)
                  \<and> DiffIDs_of h2 r = DiffIDs_of h r \<and> Type_of h2 r = Type_of h r)"
proof -
  from assms obtain a where r: "r = Some a" and a: "a < length (structs h)"
    and vs: "valid_slice h (DiffIDs (structs h ! a))"
    by (cases r) (auto simp: valid_rootfs_def split: if_splits)
  let ?v = "structs h ! a"
  obtain h' s1 where c: "slices_Clone grow h (DiffIDs ?v) = (h', s1)"
    and rd: "read_slice h' s1 = read_slice h (DiffIDs ?v)" and v1: "valid_slice h' s1"
    and st: "structs h' = structs h"
    and fr: "\<And>t. valid_slice h t \<Longrightarrow> read_slice h' t = read_slice h t \<and> valid_slice h' t"
    and k: "slice_cap s1 = 0 \<or> s1 = NilSlice \<or> length (arrays h) \<le> sarr s1"
    using slices_Clone_props[OF vs, of grow] by metis
  let ?n = "length (structs h)"
  let ?h1 = "h'\<lparr>structs := structs h' @ [\<lparr>Type = Type ?v, DiffIDs = s1\<rparr>]\<rparr>"
  have cl: "Clone grow h r = Inr (?h1, Some ?n)"
    using r a c st by (simp add: Clone_def)
  have ne: "Some ?n \<noteq> r" using r a by simp
  have d1c: "deref ?h1 (Some ?n) = Some \<lparr>Type = Type ?v, DiffIDs = s1\<rparr>"
    using st by simp
  have d1r: "deref ?h1 r = Some ?v" using r a st by (simp add: nth_append)
  have vr1: "valid_slice ?h1 (DiffIDs ?v)" "read_slice ?h1 (DiffIDs ?v) = read_slice h (DiffIDs ?v)"
    using fr[OF vs] by simp_all
  have sep: "slice_cap s1 = 0 \<or> DiffIDs ?v = NilSlice \<or> s1 = NilSlice \<or> sarr s1 \<noteq> sarr (DiffIDs ?v)"
    using k vs by (cases "DiffIDs ?v") auto
  have app: "\<exists>h2. Append grow ?h1 (Some ?n) d = Inr h2
                  \<and> DiffIDs_of h2 (Some ?n) = map_option (\<lambda>ds. ds @ [d]) (DiffIDs_of h r)
                  \<and> DiffIDs_of h2 r = DiffIDs_of h r \<and> Type_of h2 r = Type_of h r" for d
  proof -
    obtain h2 s2 where g: "go_append grow ?h1 s1 [d] = (h2, s2)"
      by (cases "go_append grow ?h1 s1 [d]")
    have v1': "valid_slice ?h1 s1" using v1 by simp
    from go_append_read[OF v1', where grow=grow and xs="[d]"] g
    have p: "read_slice h2 s2 = read_slice h (DiffIDs ?v) @ [d]" "structs h2 = structs ?h1"
      using rd by auto
    from go_append_frame[OF vr1(1) sep, where grow=grow and xs="[d]"] g
    have q: "read_slice h2 (DiffIDs ?v) = read_slice h (DiffIDs ?v)"
      using vr1(2) by simp
    show ?thesis
      using g p q r a st d1c
      by (simp add: Append_def DiffIDs_of_def Type_of_def nth_append)
  qed
  show ?thesis
    using cl ne d1c d1r vr1 rd v1 app r a st
    by (simp add: valid_rootfs_def Type_of_def DiffIDs_of_def nth_append)
qed

theorem RootFS_Clone_equal_independent_witness:
  "valid_rootfs heap0 (Some 0) \<and>
   (\<exists>h1 c. Clone (\<lambda>c n. n) heap0 (Some 0) = Inr (h1, c) \<and> c \<noteq> Some 0
       \<and> DiffIDs_of h1 c = Some [''d1'', ''d2''] \<and> Type_of h1 c = Some ''layers''
       \<and> (\<exists>h2. Append (\<lambda>c n. n) h1 c ''d3'' = Inr h2
              \<and> DiffIDs_of h2 c = Some [''d1'', ''d2'', ''d3'']
              \<and> DiffIDs_of h2 (Some 0) = Some [''d1'', ''d2'']))"
proof -
  have v: "valid_rootfs heap0 (Some 0)"
    by (simp add: valid_rootfs_def heap0_def)
  have o: "DiffIDs_of heap0 (Some 0) = Some [''d1'', ''d2'']" "Type_of heap0 (Some 0) = Some ''layers''"
    by (simp_all add: DiffIDs_of_def Type_of_def heap0_def)
  from RootFS_Clone_equal_independent [OF v, of "\<lambda>c n. n"]
  obtain h1 c where c: "Clone (\<lambda>c n. n) heap0 (Some 0) = Inr (h1, c)" "c \<noteq> Some 0"
    "Type_of h1 c = Type_of heap0 (Some 0)" "DiffIDs_of h1 c = DiffIDs_of heap0 (Some 0)"
    and a: "\<forall>d. \<exists>h2. Append (\<lambda>c n. n) h1 c d = Inr h2
                  \<and> DiffIDs_of h2 c = map_option (\<lambda>ds. ds @ [d]) (DiffIDs_of heap0 (Some 0))
                  \<and> DiffIDs_of h2 (Some 0) = DiffIDs_of heap0 (Some 0)
                  \<and> Type_of h2 (Some 0) = Type_of heap0 (Some 0)"
    by blast
  from a obtain h2 where "Append (\<lambda>c n. n) h1 c ''d3'' = Inr h2"
    "DiffIDs_of h2 c = map_option (\<lambda>ds. ds @ [''d3'']) (DiffIDs_of heap0 (Some 0))"
    "DiffIDs_of h2 (Some 0) = DiffIDs_of heap0 (Some 0)"
    by blast
  with v o c show ?thesis by simp
qed

section \<open>Properties of the schema1 puller\<close>


lemma unmarshal_imgs_nth:
  "unmarshal_imgs env n hs = Inr imgs \<Longrightarrow> i < n \<Longrightarrow>
     unmarshal_V1Image (v1 env) (hs ! i) = Inr (imgs ! i) \<and> ValidateID (v1 env) (ID (imgs ! i)) = None"
  by (induction env n hs arbitrary: imgs i rule: unmarshal_imgs.induct)
     (auto split: sum.splits option.splits simp: nth_Cons split: nat.splits)
























section \<open>Properties of the schema2 and OCI puller\<close>

lemma ImageStore_Put_cases:
  "ImageStore_Put env st c = (st', r) \<Longrightarrow>
     (\<exists>e. r = Inl e \<and> st' = st)
     \<or> (r = Inr (FromBytes (lib env) c) \<and> st' = st\<lparr>images := (images st)(FromBytes (lib env) c \<mapsto> c)\<rparr>)"
  by (auto simp: ImageStore_Put_def split: option.splits)

lemma diffIDs_loop_iff:
  "(length d \<noteq> length c \<or> list_ex (\<lambda>i. d ! i \<noteq> c ! i) [0..<length d]) \<longleftrightarrow> d \<noteq> c"
proof (cases "length d = length c")
  case True
  have "list_ex (\<lambda>i. d ! i \<noteq> c ! i) [0..<length d] \<longleftrightarrow> (\<exists>i<length d. d ! i \<noteq> c ! i)"
    by (auto simp: list_ex_iff)
  also have "\<dots> \<longleftrightarrow> d \<noteq> c" using True nth_equalityI[of d c] by auto
  finally show ?thesis using True by simp
next
  case False
  then show ?thesis by auto
qed

lemma download_state:
  "pullSchema2Layers_download env st ds = (st1, r) \<Longrightarrow>
     images st1 = images st \<and> refs st1 = refs st \<and> out st1 = out st
     \<and> (case DownloadManager (cfg env) of
           None \<Rightarrow> st1 = st \<and> r = Inr None
         | Some download \<Rightarrow>
             downloads st1 = downloads st @ [(ds, download ds)]
             \<and> r = (case download ds of Inl e \<Rightarrow> Inl e | Inr rootFS \<Rightarrow> Inr (Some rootFS)))"
  by (auto simp: pullSchema2Layers_download_def split: option.splits)

lemma assemble_cases:
  assumes "pullSchema2Layers_assemble env st received sent downloaded = (st', r)"
  shows "(\<exists>e. r = Inl e \<and> st' = st)
         \<or> (\<exists>configJSON configRootFS dl.
               (received = Some (configJSON, configRootFS)
                \<or> received = None \<and> (\<exists>p. receiveConfig env sent = Inr (configJSON, Some configRootFS, p)))
             \<and> downloaded = Inr dl \<and> (\<forall>d. dl = Some d \<longrightarrow> d = configRootFS)
             \<and> r = Inr (FromBytes (lib env) configJSON)
             \<and> st' = st\<lparr>images := (images st)(FromBytes (lib env) configJSON \<mapsto> configJSON)\<rparr>)"
  using assms
  unfolding pullSchema2Layers_assemble_def diffIDs_loop_iff
  by (auto split: sum.splits option.splits prod.splits if_splits dest!: ImageStore_Put_cases)


lemma windows_cases:
  assumes "pullSchema2Layers_windows env sent descriptors platform os0 = Inr ((configJSON, configRootFS), ds, os)"
  shows "\<exists>p. receiveConfig env sent = Inr (configJSON, Some configRootFS, p)"
  using assms
  by (auto simp: pullSchema2Layers_windows_def split: sum.splits option.splits prod.splits if_splits)

lemma receiveConfig_Inr:
  "receiveConfig env sent = Inr (configJSON, rootfs, p) \<Longrightarrow>
     sent = Inr configJSON \<and> rootFSFromConfig (lib env) configJSON = Inr rootfs
     \<and> platformFromConfig (lib env) configJSON = Inr p"
  by (auto simp: receiveConfig_def split: sum.splits)

lemma pullSchema2Layers_cases:
  assumes "pullSchema2Layers env st target layers platform = (st', r)"
  shows "(images st (Digest target) \<noteq> None \<and> st' = st \<and> r = Inr (Digest target))
       \<or> (images st (Digest target) = None \<and> (\<exists>e. r = Inl e) \<and> st' = st)
       \<or> (images st (Digest target) = None \<and>
            (\<exists>st1 descs received downloaded.
               pullSchema2Layers_download env st descs = (st1, downloaded)
             \<and> (received = None \<or> (\<exists>configJSON configRootFS p. received = Some (configJSON, configRootFS)
                    \<and> receiveConfig env (pullSchema2Layers_config env (Digest target))
                        = Inr (configJSON, Some configRootFS, p)))
             \<and> pullSchema2Layers_assemble env st1 received (pullSchema2Layers_config env (Digest target)) downloaded = (st', r)))"
proof (cases "images st (Digest target)")
  case (Some c)
  with assms show ?thesis by (simp add: pullSchema2Layers_def ImageStore_Get_def)
next
  case None
  show ?thesis
  proof (cases "validate_layer_digests env layers")
    case (Some e)
    with None assms show ?thesis by (auto simp: pullSchema2Layers_def ImageStore_Get_def)
  next
    case vn: None
    let ?d0 = "map (\<lambda>d. \<lparr>ld_digest = Digest d, ld_diffID = '''', ld_src = Some d\<rparr>) layers"
    let ?sent = "pullSchema2Layers_config env (Digest target)"
    let ?os0 = "case platform of None \<Rightarrow> GOOS (cfg env) | Some p \<Rightarrow> OS p"
    let ?pre = "if GOOS (cfg env) = ''windows''
              then (case pullSchema2Layers_windows env ?sent ?d0 platform ?os0 of
                      Inl e \<Rightarrow> Inl e
                    | Inr (c, ds, os) \<Rightarrow> Inr (Some c, ds, os))
            else Inr (None, ?d0, ?os0)"
    have eq: "pullSchema2Layers env st target layers platform =
      (case ?pre of
        Inl e \<Rightarrow> (st, Inl e)
      | Inr (received, descriptors, layerStoreOS) \<Rightarrow>
          if layerStoreOS \<noteq> '''' \<and> \<not> IsOSSupported (lib env) layerStoreOS
            then (st, Inl ErrNotSupportedOperatingSystem)
          else
            (case pullSchema2Layers_download env st descriptors of
               (st1, downloaded) \<Rightarrow> pullSchema2Layers_assemble env st1 received ?sent downloaded))"
      using None vn by (simp add: pullSchema2Layers_def ImageStore_Get_def Let_def)
    show ?thesis
    proof (cases ?pre)
      case (Inl e)
      with eq assms None show ?thesis by auto
    next
      case (Inr x)
      obtain received descriptors layerStoreOS where x: "x = (received, descriptors, layerStoreOS)"
        by (cases x) auto
      have rc: "received = None \<or> (\<exists>configJSON configRootFS p. received = Some (configJSON, configRootFS)
                    \<and> receiveConfig env ?sent = Inr (configJSON, Some configRootFS, p))"
      proof (cases "GOOS (cfg env) = ''windows''")
        case True
        with Inr x obtain c where w: "pullSchema2Layers_windows env ?sent ?d0 platform ?os0 = Inr (c, descriptors, layerStoreOS)"
          and r: "received = Some c"
          by (auto split: sum.splits prod.splits)
        obtain cj cr where c: "c = (cj, cr)" by (cases c) auto
        from windows_cases[OF w[unfolded c]] r c show ?thesis by auto
      next
        case False
        with Inr x show ?thesis by auto
      qed
      show ?thesis
      proof (cases "layerStoreOS \<noteq> '''' \<and> \<not> IsOSSupported (lib env) layerStoreOS")
        case True
        with eq Inr x assms None show ?thesis by auto
      next
        case False
        obtain st1 downloaded where d: "pullSchema2Layers_download env st descriptors = (st1, downloaded)"
          by (cases "pullSchema2Layers_download env st descriptors") auto
        with eq Inr x False assms
        have "pullSchema2Layers_assemble env st1 received ?sent downloaded = (st', r)" by auto
        with d rc None show ?thesis by blast
      qed
    qed
  qed
qed



text \<open>
  C1 (amended). When a schema2/OCI pull succeeds and its layers went through the
  download manager (the image was not in the Image Store already, and a download
  manager is configured), the diff-IDs of the downloaded layers are those declared in
  the committed configuration: as many, and equal position by position. Whenever the
  configuration has been received and the download has returned layers whose diff-IDs
  differ from the declared ones, in number or at some position, the pull returns
  \<open>errRootFSMismatch\<close> and the Image Store and the Reference Store are unchanged.
\<close>

theorem pullSchema2Layers_rootfs_alignment:
  assumes "pullSchema2Layers env st target layers platform = (st', r)"
  shows
    "(\<forall>i. r = Inr i \<and> images st (Digest target) = None \<and> DownloadManager (cfg env) \<noteq> None \<longrightarrow>
        (\<exists>descs d configJSON c.
            downloads st' = downloads st @ [(descs, Inr d)]
          \<and> images st' = (images st)(i \<mapsto> configJSON)
          \<and> rootFSFromConfig (lib env) configJSON = Inr (Some c)
          \<and> length d = length c \<and> (\<forall>k<length d. d ! k = c ! k)))
   \<and> (\<forall>descs d configJSON c p.
          downloads st' = downloads st @ [(descs, Inr d)]
        \<and> pullSchema2Config env (Digest target) = Inr configJSON
        \<and> receiveConfig env (Inr configJSON) = Inr (configJSON, Some c, p)
        \<and> (length d \<noteq> length c \<or> (\<exists>k<length d. d ! k \<noteq> c ! k))
        \<longrightarrow> r = Inl errRootFSMismatch \<and> images st' = images st \<and> refs st' = refs st)"
proof -
  let ?sent = "pullSchema2Layers_config env (Digest target)"
  from pullSchema2Layers_cases[OF assms]
  consider (short) "images st (Digest target) \<noteq> None" "st' = st" "r = Inr (Digest target)"
    | (early) "\<exists>e. r = Inl e" "st' = st"
    | (run) st1 descs received downloaded where
        "images st (Digest target) = None"
        "pullSchema2Layers_download env st descs = (st1, downloaded)"
        "received = None \<or> (\<exists>configJSON configRootFS p. received = Some (configJSON, configRootFS)
                    \<and> receiveConfig env ?sent = Inr (configJSON, Some configRootFS, p))"
        "pullSchema2Layers_assemble env st1 received ?sent downloaded = (st', r)"
    by blast
  then show ?thesis
  proof cases
    case short
    then show ?thesis by auto
  next
    case early
    then show ?thesis by auto
  next
    case run
    note ds = download_state[OF run(2)]
    note ac = assemble_cases[OF run(4)]
    have 1: "\<forall>i. r = Inr i \<and> images st (Digest target) = None \<and> DownloadManager (cfg env) \<noteq> None \<longrightarrow>
        (\<exists>descs d configJSON c.
            downloads st' = downloads st @ [(descs, Inr d)]
          \<and> images st' = (images st)(i \<mapsto> configJSON)
          \<and> rootFSFromConfig (lib env) configJSON = Inr (Some c)
          \<and> length d = length c \<and> (\<forall>k<length d. d ! k = c ! k))"
    proof (intro allI impI, elim conjE)
      fix i assume r: "r = Inr i" and dm: "DownloadManager (cfg env) \<noteq> None"
      from dm obtain download where dl: "DownloadManager (cfg env) = Some download" by auto
      from ac r obtain configJSON configRootFS dl' where
        rc: "received = Some (configJSON, configRootFS)
                \<or> received = None \<and> (\<exists>p. receiveConfig env ?sent = Inr (configJSON, Some configRootFS, p))"
        and d: "downloaded = Inr dl'" "\<forall>d. dl' = Some d \<longrightarrow> d = configRootFS"
        and i: "i = FromBytes (lib env) configJSON"
        and st': "st' = st1\<lparr>images := (images st1)(FromBytes (lib env) configJSON \<mapsto> configJSON)\<rparr>"
        by auto
      from rc run(3) obtain p where "receiveConfig env ?sent = Inr (configJSON, Some configRootFS, p)"
        by auto
      from receiveConfig_Inr[OF this] have rf: "rootFSFromConfig (lib env) configJSON = Inr (Some configRootFS)"
        by simp
      from ds dl d have "download descs = Inr configRootFS" "downloads st1 = downloads st @ [(descs, download descs)]"
        by (auto split: sum.splits)
      with st' ds i rf
      show "\<exists>descs d configJSON c.
            downloads st' = downloads st @ [(descs, Inr d)]
          \<and> images st' = (images st)(i \<mapsto> configJSON)
          \<and> rootFSFromConfig (lib env) configJSON = Inr (Some c)
          \<and> length d = length c \<and> (\<forall>k<length d. d ! k = c ! k)"
        by auto
    qed
    have 2: "\<forall>descs' d configJSON c p.
          downloads st' = downloads st @ [(descs', Inr d)]
        \<and> pullSchema2Config env (Digest target) = Inr configJSON
        \<and> receiveConfig env (Inr configJSON) = Inr (configJSON, Some c, p)
        \<and> (length d \<noteq> length c \<or> (\<exists>k<length d. d ! k \<noteq> c ! k))
        \<longrightarrow> r = Inl errRootFSMismatch \<and> images st' = images st \<and> refs st' = refs st"
    proof (intro allI impI, elim conjE)
      fix descs' d configJSON c p
      assume lg: "downloads st' = downloads st @ [(descs', Inr d)]"
        and pc: "pullSchema2Config env (Digest target) = Inr configJSON"
        and rc: "receiveConfig env (Inr configJSON) = Inr (configJSON, Some c, p)"
        and ne: "length d \<noteq> length c \<or> (\<exists>k<length d. d ! k \<noteq> c ! k)"
      from ne have dc: "d \<noteq> c" by auto
      from pc have sent: "?sent = Inr configJSON" by (simp add: pullSchema2Layers_config_def)
      from run(3) rc sent have recv: "received = None \<or> received = Some (configJSON, c)" by auto
      have st1': "downloads st' = downloads st1"
        using ac by auto
      from ds lg st1' have dl: "downloaded = Inr (Some d)"
        by (cases "DownloadManager (cfg env)") (auto split: sum.splits)
      from recv rc sent dl dc run(4) have "r = Inl errRootFSMismatch \<and> st' = st1"
        unfolding pullSchema2Layers_assemble_def diffIDs_loop_iff by auto
      with ds show "r = Inl errRootFSMismatch \<and> images st' = images st \<and> refs st' = refs st" by simp
    qed
    from 1 2 show ?thesis by blast
  qed
qed

theorem pullSchema2Layers_rootfs_alignment_witness:
  "(snd (pullSchema2Layers env0 state0 (Config manifest_v1) (Layers manifest_v1) None) = Inr ''sha256:ab''
    \<and> images state0 (Digest (Config manifest_v1)) = None \<and> DownloadManager (cfg env0) \<noteq> None
    \<and> (\<exists>descs d configJSON c.
          downloads (fst (pullSchema2Layers env0 state0 (Config manifest_v1) (Layers manifest_v1) None))
            = downloads state0 @ [(descs, Inr d)]
        \<and> images (fst (pullSchema2Layers env0 state0 (Config manifest_v1) (Layers manifest_v1) None))
            = (images state0)(''sha256:ab'' \<mapsto> configJSON)
        \<and> rootFSFromConfig (lib env0) configJSON = Inr (Some c)
        \<and> length d = length c \<and> (\<forall>k<length d. d ! k = c ! k)))
   \<and> (pullSchema2Config env0 (Digest (Config manifest_v2)) = Inr ''ab''
      \<and> receiveConfig env0 (Inr ''ab'') = Inr (''ab'', Some [''a'', ''b''], linux_amd64)
      \<and> downloads (fst (pullSchema2Layers env0 state0 (Config manifest_v2) (Layers manifest_v2) None))
            = downloads state0 @ [([\<lparr>ld_digest = ''a'', ld_diffID = '''', ld_src = Some (layer_desc ''a'')\<rparr>], Inr [''a''])]
      \<and> length [''a''] \<noteq> length [''a'', ''b'']
      \<and> snd (pullSchema2Layers env0 state0 (Config manifest_v2) (Layers manifest_v2) None) = Inl errRootFSMismatch
      \<and> images (fst (pullSchema2Layers env0 state0 (Config manifest_v2) (Layers manifest_v2) None)) = images state0)"
proof -
  let ?p1 = "pullSchema2Layers env0 state0 (Config manifest_v1) (Layers manifest_v1) None"
  let ?p2 = "pullSchema2Layers env0 state0 (Config manifest_v2) (Layers manifest_v2) None"
  have e1: "?p1 = (fst ?p1, snd ?p1)" and e2: "?p2 = (fst ?p2, snd ?p2)" by simp_all
  have r1: "snd ?p1 = Inr ''sha256:ab''" by code_simp
  have h1: "images state0 (Digest (Config manifest_v1)) = None" "DownloadManager (cfg env0) \<noteq> None"
    by (simp_all add: state0_def manifest_v1_def config0_def)
  have c2: "pullSchema2Config env0 (Digest (Config manifest_v2)) = Inr ''ab''" by code_simp
  have rc2: "receiveConfig env0 (Inr ''ab'') = Inr (''ab'', Some [''a'', ''b''], linux_amd64)" by code_simp
  have d2: "downloads (fst ?p2)
      = downloads state0 @ [([\<lparr>ld_digest = ''a'', ld_diffID = '''', ld_src = Some (layer_desc ''a'')\<rparr>], Inr [''a''])]"
    by code_simp
  have n2: "length [''a''] \<noteq> length [''a'', ''b'']" by simp
  from pullSchema2Layers_rootfs_alignment[OF e1] r1 h1
  have w1: "\<exists>descs d configJSON c.
          downloads (fst ?p1) = downloads state0 @ [(descs, Inr d)]
        \<and> images (fst ?p1) = (images state0)(''sha256:ab'' \<mapsto> configJSON)
        \<and> rootFSFromConfig (lib env0) configJSON = Inr (Some c)
        \<and> length d = length c \<and> (\<forall>k<length d. d ! k = c ! k)"
    by blast
  from pullSchema2Layers_rootfs_alignment[OF e2] c2 rc2 d2 n2
  have w2: "snd ?p2 = Inl errRootFSMismatch \<and> images (fst ?p2) = images state0"
    by blast
  from r1 h1 w1 c2 rc2 d2 n2 w2 show ?thesis by blast
qed

theorem pullSchema2Layers_unchecked_counterexample:
  "(snd (pullSchema2Layers env_nodm state0 (Config manifest_v2) (Layers manifest_v2) None) = Inr ''sha256:ab''
    \<and> downloads (fst (pullSchema2Layers env_nodm state0 (Config manifest_v2) (Layers manifest_v2) None)) = []
    \<and> images (fst (pullSchema2Layers env_nodm state0 (Config manifest_v2) (Layers manifest_v2) None)) ''sha256:ab''
         = Some ''ab''
    \<and> rootFSFromConfig (lib env_nodm) ''ab'' = Inr (Some [''a'', ''b'']))
   \<and> (snd (pullSchema2Layers env0 state1 (Config manifest_v2) (Layers manifest_v2) None) = Inr ''sha256:ab''
    \<and> downloads (fst (pullSchema2Layers env0 state1 (Config manifest_v2) (Layers manifest_v2) None)) = []
    \<and> images (fst (pullSchema2Layers env0 state1 (Config manifest_v2) (Layers manifest_v2) None)) ''sha256:ab''
         = Some ''ab''
    \<and> rootFSFromConfig (lib env0) ''ab'' = Inr (Some [''a'', ''b'']))
   \<and> length (Layers manifest_v2) = 1"
  by code_simp

section \<open>Pulling again\<close>

lemma pullSchema2Config_Inr: "pullSchema2Config env d = Inr c \<Longrightarrow> Verified env d c"
  by (auto simp: pullSchema2Config_def split: prod.splits option.splits if_splits)

lemma pullSchema2Layers_success_id:
  assumes "pullSchema2Layers env st target layers platform = (st', Inr i)"
  shows "i = Digest target \<and> images st' (Digest target) \<noteq> None"
proof -
  let ?sent = "pullSchema2Layers_config env (Digest target)"
  from pullSchema2Layers_cases[OF assms]
  consider (short) "images st (Digest target) \<noteq> None" "st' = st" "Inr i = (Inr (Digest target) :: error + digest)"
    | (run) st1 descs received downloaded where
        "pullSchema2Layers_download env st descs = (st1, downloaded)"
        "received = None \<or> (\<exists>configJSON configRootFS p. received = Some (configJSON, configRootFS)
                    \<and> receiveConfig env ?sent = Inr (configJSON, Some configRootFS, p))"
        "pullSchema2Layers_assemble env st1 received ?sent downloaded = (st', Inr i)"
    by blast
  then show ?thesis
  proof cases
    case short
    then show ?thesis by auto
  next
    case run
    from assemble_cases[OF run(3)] run(2) obtain configJSON configRootFS p where
      rc: "receiveConfig env ?sent = Inr (configJSON, Some configRootFS, p)"
      and i: "i = FromBytes (lib env) configJSON"
      and st': "st' = st1\<lparr>images := (images st1)(FromBytes (lib env) configJSON \<mapsto> configJSON)\<rparr>"
      by auto
    from receiveConfig_Inr[OF rc] have "?sent = Inr configJSON" by simp
    then have "pullSchema2Config env (Digest target) = Inr configJSON"
      by (auto simp: pullSchema2Layers_config_def split: sum.splits)
    from pullSchema2Config_Inr[OF this] have "FromBytes (lib env) configJSON = Digest target"
      by (simp add: Verified_def)
    with i st' show ?thesis by simp
  qed
qed

lemma pullSchema2Layers_short_circuit:
  "images st (Digest target) \<noteq> None \<Longrightarrow>
     pullSchema2Layers env st target layers platform = (st, Inr (Digest target))"
  by (auto simp: pullSchema2Layers_def ImageStore_Get_def)

text \<open>
  C6. When the digest of the target is in the Image Store, \<open>pullSchema2Layers\<close> returns
  it and leaves the state as it is: no configuration is fetched and nothing downloaded.
  Hence a pull of a schema2 or OCI manifest that has succeeded, repeated on the state
  it produced with the registry unchanged, returns the same image ID and manifest
  digest and changes nothing; in particular it adds no download.
\<close>

theorem pullSchema2_idempotent:
  "(images st (Digest target) \<noteq> None \<longrightarrow>
      pullSchema2Layers env st target layers platform = (st, Inr (Digest target)))
   \<and> (pullSchema2 env st r mfst platform = (st1, Inr (i, md)) \<longrightarrow>
        pullSchema2 env st1 r mfst platform = (st1, Inr (i, md))
        \<and> downloads (fst (pullSchema2 env st1 r mfst platform)) = downloads st1)
   \<and> (pullOCI env st r mfst platform = (st1, Inr (i, md)) \<longrightarrow>
        pullOCI env st1 r mfst platform = (st1, Inr (i, md))
        \<and> downloads (fst (pullOCI env st1 r mfst platform)) = downloads st1)"
proof (intro conjI impI)
  assume "images st (Digest target) \<noteq> None"
  then show "pullSchema2Layers env st target layers platform = (st, Inr (Digest target))"
    by (rule pullSchema2Layers_short_circuit)
next
  assume a: "pullSchema2 env st r mfst platform = (st1, Inr (i, md))"
  then have m: "schema2ManifestDigest env r (Payload mfst) = Inr md"
    and l: "pullSchema2Layers env st (Config mfst) (Layers mfst) platform = (st1, Inr i)"
    by (auto simp: pullSchema2_def split: sum.splits prod.splits)
  from pullSchema2Layers_success_id[OF l]
  have "i = Digest (Config mfst)" "images st1 (Digest (Config mfst)) \<noteq> None" by auto
  with pullSchema2Layers_short_circuit[of st1 "Config mfst" env "Layers mfst" platform] m
  show 1: "pullSchema2 env st1 r mfst platform = (st1, Inr (i, md))"
    by (simp add: pullSchema2_def)
  then show "downloads (fst (pullSchema2 env st1 r mfst platform)) = downloads st1" by simp
next
  assume a: "pullOCI env st r mfst platform = (st1, Inr (i, md))"
  then have m: "schema2ManifestDigest env r (Payload mfst) = Inr md"
    and l: "pullSchema2Layers env st (Config mfst) (Layers mfst) platform = (st1, Inr i)"
    by (auto simp: pullOCI_def split: sum.splits prod.splits)
  from pullSchema2Layers_success_id[OF l]
  have "i = Digest (Config mfst)" "images st1 (Digest (Config mfst)) \<noteq> None" by auto
  with pullSchema2Layers_short_circuit[of st1 "Config mfst" env "Layers mfst" platform] m
  show 1: "pullOCI env st1 r mfst platform = (st1, Inr (i, md))"
    by (simp add: pullOCI_def)
  then show "downloads (fst (pullOCI env st1 r mfst platform)) = downloads st1" by simp
qed



theorem pullSchema2_idempotent_witness:
  "images state1 (Digest (Config manifest_v1)) \<noteq> None
   \<and> pullSchema2Layers env0 state1 (Config manifest_v1) (Layers manifest_v1) None = (state1, Inr ''sha256:ab'')
   \<and> snd (pullSchema2 env0 state0 (Tagged ''app'' ''v1'') manifest_v1 None) = Inr (''sha256:ab'', ''sha256:m1'')
   \<and> pullSchema2 env0 (fst (pullSchema2 env0 state0 (Tagged ''app'' ''v1'') manifest_v1 None))
         (Tagged ''app'' ''v1'') manifest_v1 None
       = (fst (pullSchema2 env0 state0 (Tagged ''app'' ''v1'') manifest_v1 None), Inr (''sha256:ab'', ''sha256:m1''))
   \<and> snd (pullOCI env0 state0 (Tagged ''app'' ''v1'') manifest_v1 None) = Inr (''sha256:ab'', ''sha256:m1'')
   \<and> pullOCI env0 (fst (pullOCI env0 state0 (Tagged ''app'' ''v1'') manifest_v1 None))
         (Tagged ''app'' ''v1'') manifest_v1 None
       = (fst (pullOCI env0 state0 (Tagged ''app'' ''v1'') manifest_v1 None), Inr (''sha256:ab'', ''sha256:m1''))"
proof -
  let ?r = "Tagged ''app'' ''v1''"
  let ?p = "pullSchema2 env0 state0 ?r manifest_v1 None"
  let ?q = "pullOCI env0 state0 ?r manifest_v1 None"
  have h: "images state1 (Digest (Config manifest_v1)) \<noteq> None"
    by (simp add: state1_def manifest_v1_def)
  have d: "Digest (Config manifest_v1) = ''sha256:ab''" by (simp add: manifest_v1_def)
  have r1: "snd ?p = Inr (''sha256:ab'', ''sha256:m1'')" by code_simp
  have r2: "snd ?q = Inr (''sha256:ab'', ''sha256:m1'')" by code_simp
  have e1: "?p = (fst ?p, Inr (''sha256:ab'', ''sha256:m1''))" using r1 by (metis prod.collapse)
  have e2: "?q = (fst ?q, Inr (''sha256:ab'', ''sha256:m1''))" using r2 by (metis prod.collapse)
  from pullSchema2_idempotent[where st=state1 and target="Config manifest_v1" and env=env0
      and layers="Layers manifest_v1" and platform=None] h d
  have a: "pullSchema2Layers env0 state1 (Config manifest_v1) (Layers manifest_v1) None = (state1, Inr ''sha256:ab'')"
    by simp
  from pullSchema2_idempotent[where env=env0 and st=state0 and r="?r" and mfst=manifest_v1 and platform=None
      and ?st1.0="fst ?p" and i="''sha256:ab''" and md="''sha256:m1''"] e1
  have b: "pullSchema2 env0 (fst ?p) ?r manifest_v1 None = (fst ?p, Inr (''sha256:ab'', ''sha256:m1''))"
    by blast
  from pullSchema2_idempotent[where env=env0 and st=state0 and r="?r" and mfst=manifest_v1 and platform=None
      and ?st1.0="fst ?q" and i="''sha256:ab''" and md="''sha256:m1''"] e2
  have c: "pullOCI env0 (fst ?q) ?r manifest_v1 None = (fst ?q, Inr (''sha256:ab'', ''sha256:m1''))"
    by blast
  from h a r1 b r2 c show ?thesis by blast
qed


section \<open>What a pull does to the stores\<close>











lemma stores_ok_message [simp]:
  "stores_ok (progress_Message st a b) st' res = stores_ok st st' res"
  by (simp add: stores_ok_def progress_Message_def)



lemma stores_ok_refl_err [simp]: "stores_ok st st (Inl e)"
  by (simp add: stores_ok_def)


















section \<open>The Reference Store after a pull\<close>

lemma addDigestReference_cases:
  "addDigestReference env st r md i = (st', x) \<Longrightarrow>
     (\<exists>e. x = Some e \<and> st' = st
         \<and> (WithDigest_err (lib env) md = Some e
             \<or> WithDigest_err (lib env) md = None \<and> AddDigest_err (sto env) (Canonical (ref_name r) md) i = Some e))
     \<or> (x = None \<and> WithDigest_err (lib env) md = None
         \<and> AddDigest_err (sto env) (Canonical (ref_name r) md) i = None
         \<and> st' = st\<lparr>refs := (refs st)(Canonical (ref_name r) md \<mapsto> i)\<rparr>)"
  by (auto simp: addDigestReference_def ReferenceStore_AddDigest_def split: option.splits)

lemma pullTag_references_same:
  assumes rs: "has_ReferenceStore (cfg env)"
    and g: "ref_Get_err (sto env) r = None"
    and run: "pullTag_references env st r i md = (st', res)"
    and same: "refs st r = Some i"
  shows "res \<noteq> Inr True
      \<and> (\<forall>n t. refs st' (Tagged n t) = refs st (Tagged n t))
      \<and> (\<forall>k. k \<noteq> Canonical (ref_name r) md \<longrightarrow> refs st' k = refs st k)
      \<and> images st' = images st
      \<and> (WithDigest_err (lib env) md = None \<and> AddDigest_err (sto env) (Canonical (ref_name r) md) i = None
           \<longrightarrow> res = Inr False \<and> refs st' (Canonical (ref_name r) md) = Some i)
      \<and> (\<forall>e. WithDigest_err (lib env) md = Some e
              \<or> WithDigest_err (lib env) md = None \<and> AddDigest_err (sto env) (Canonical (ref_name r) md) i = Some e
           \<longrightarrow> res = Inl e \<and> refs st' = refs st)"
proof -
  let ?st0 = "progress_Message st '''' (''Digest: '' @ md)"
  have r0: "refs ?st0 = refs st" "images ?st0 = images st" by (simp_all add: progress_Message_def)
  from same have get: "ReferenceStore_Get env ?st0 r = Inr i"
    using g r0 by (simp add: ReferenceStore_Get_def)
  obtain st1 x where a: "addDigestReference env ?st0 r md i = (st1, x)"
    by (cases "addDigestReference env ?st0 r md i") auto
  from run rs get a have res: "st' = st1" "res = (case x of Some e \<Rightarrow> Inl e | None \<Rightarrow> Inr False)"
    by (auto simp: pullTag_references_def Let_def split: option.splits)
  from addDigestReference_cases[OF a] res r0 show ?thesis by auto
qed

lemma pullTag_references_other:
  assumes rs: "has_ReferenceStore (cfg env)"
    and g: "ref_Get_err (sto env) r = None"
    and run: "pullTag_references env st r i md = (st', res)"
    and diff: "refs st r \<noteq> Some i"
  shows "(WithDigest_err (lib env) md = None
          \<and> (\<forall>k. AddDigest_err (sto env) k i = None) \<and> AddTag_err (sto env) r i = None
        \<longrightarrow> res = Inr True
          \<and> refs st' r = Some i
          \<and> (\<forall>n t. r = Tagged n t \<longrightarrow> refs st' (Canonical n md) = Some i \<and> refs st' (Tagged n t) = Some i)
          \<and> (\<forall>k. k \<noteq> r \<and> k \<noteq> Canonical (ref_name r) md \<longrightarrow> refs st' k = refs st k)
          \<and> images st' = images st)
      \<and> (\<forall>n t e. r = Tagged n t
            \<and> (WithDigest_err (lib env) md = Some e
                \<or> WithDigest_err (lib env) md = None \<and> AddDigest_err (sto env) (Canonical n md) i = Some e)
          \<longrightarrow> res = Inl e \<and> refs st' = refs st)
      \<and> (\<forall>n t e. r = Tagged n t
            \<and> WithDigest_err (lib env) md = None \<and> AddDigest_err (sto env) (Canonical n md) i = None
            \<and> AddTag_err (sto env) r i = Some e
          \<longrightarrow> res = Inl e \<and> refs st' = (refs st)(Canonical n md \<mapsto> i))
      \<and> (\<forall>n d e. r = Canonical n d \<and> AddDigest_err (sto env) r i = Some e
          \<longrightarrow> res = Inl e \<and> refs st' = refs st)"
proof -
  let ?st0 = "progress_Message st '''' (''Digest: '' @ md)"
  have r0: "refs ?st0 = refs st" "images ?st0 = images st" by (simp_all add: progress_Message_def)
  have get: "ReferenceStore_Get env ?st0 r = Inl ErrDoesNotExist
             \<or> (\<exists>j. j \<noteq> i \<and> ReferenceStore_Get env ?st0 r = Inr j)"
    using g r0 diff by (cases "refs st r") (auto simp: ReferenceStore_Get_def)
  let ?add = "case r of
                   Canonical n d \<Rightarrow>
                     (case ReferenceStore_AddDigest env ?st0 r i of
                        (st1, Some e) \<Rightarrow> (st1, Inl e)
                      | (st1, None) \<Rightarrow> (st1, Inr True))
                 | _ \<Rightarrow>
                     (case addDigestReference env ?st0 r md i of
                        (st1, Some e) \<Rightarrow> (st1, Inl e)
                      | (st1, None) \<Rightarrow>
                          (case ReferenceStore_AddTag env st1 r i of
                             (st2, Some e) \<Rightarrow> (st2, Inl e)
                           | (st2, None) \<Rightarrow> (st2, Inr True)))"
  from get have add: "?add = (st', res)"
  proof
    assume "ReferenceStore_Get env ?st0 r = Inl ErrDoesNotExist"
    with run rs show ?thesis by (cases r) (simp_all add: pullTag_references_def Let_def)
  next
    assume "\<exists>j. j \<noteq> i \<and> ReferenceStore_Get env ?st0 r = Inr j"
    then obtain j where "j \<noteq> i" "ReferenceStore_Get env ?st0 r = Inr j" by blast
    with run rs show ?thesis by (cases r) (simp_all add: pullTag_references_def Let_def)
  qed
  have 1: "WithDigest_err (lib env) md = None
          \<and> (\<forall>k. AddDigest_err (sto env) k i = None) \<and> AddTag_err (sto env) r i = None
        \<longrightarrow> res = Inr True
          \<and> refs st' r = Some i
          \<and> (\<forall>n t. r = Tagged n t \<longrightarrow> refs st' (Canonical n md) = Some i \<and> refs st' (Tagged n t) = Some i)
          \<and> (\<forall>k. k \<noteq> r \<and> k \<noteq> Canonical (ref_name r) md \<longrightarrow> refs st' k = refs st k)
          \<and> images st' = images st"
    using add
    by (cases r)
       (auto simp: addDigestReference_def ReferenceStore_AddDigest_def
              ReferenceStore_AddTag_def progress_Message_def
         split: option.splits prod.splits)
  have 2: "\<forall>n t e. r = Tagged n t
            \<and> (WithDigest_err (lib env) md = Some e
                \<or> WithDigest_err (lib env) md = None \<and> AddDigest_err (sto env) (Canonical n md) i = Some e)
          \<longrightarrow> res = Inl e \<and> refs st' = refs st"
    using add
    by (auto simp: addDigestReference_def ReferenceStore_AddDigest_def progress_Message_def)
  have 3: "\<forall>n t e. r = Tagged n t
            \<and> WithDigest_err (lib env) md = None \<and> AddDigest_err (sto env) (Canonical n md) i = None
            \<and> AddTag_err (sto env) r i = Some e
          \<longrightarrow> res = Inl e \<and> refs st' = (refs st)(Canonical n md \<mapsto> i)"
    using add
    by (auto simp: addDigestReference_def ReferenceStore_AddDigest_def ReferenceStore_AddTag_def
                   progress_Message_def)
  have 4: "\<forall>n d e. r = Canonical n d \<and> AddDigest_err (sto env) r i = Some e
          \<longrightarrow> res = Inl e \<and> refs st' = refs st"
    using add
    by (auto simp: ReferenceStore_AddDigest_def progress_Message_def)
  from 1 2 3 4 show ?thesis by blast
qed

text \<open>
  C7 (amended). With a Reference Store configured and its \<open>Get\<close> answering: when the
  store already maps the reference to the image ID the pull produced, \<open>pullTag\<close> does
  not report new content, changes no tag association, and changes the Reference Store
  at most at the digest association of the manifest digest; when the store accepts
  that association it is added and "no update" is reported, and when the association
  cannot be made or the store refuses it, \<open>pullTag\<close> returns that error and the
  Reference Store is what it was. When the store has no mapping for the reference or
  maps it to another ID, and the store accepts the additions, \<open>pullTag\<close> reports new
  content, the digest association is added and, for a tagged reference, the tag
  association too, and nothing else changes; when the digest association is refused
  \<open>pullTag\<close> returns that error with the Reference Store unchanged, and when the tag
  association is refused it returns that error with the digest association added.
  Without a Reference Store nothing is added and new content is reported.
  \<open>pullRepository\<close> then writes the status line that matches the report: "Image is up
  to date" for "no update", "Downloaded newer image" otherwise; when \<open>pullTag\<close> returns
  an error it returns that error and writes no status line.
\<close>

theorem pullTag_references_reconcile:
  assumes run: "pullTag_references env st r i md = (st', res)"
  shows
    "(has_ReferenceStore (cfg env) \<and> ref_Get_err (sto env) r = None \<and> refs st r = Some i \<longrightarrow>
        res \<noteq> Inr True
      \<and> (\<forall>n t. refs st' (Tagged n t) = refs st (Tagged n t))
      \<and> (\<forall>k. k \<noteq> Canonical (ref_name r) md \<longrightarrow> refs st' k = refs st k)
      \<and> images st' = images st
      \<and> (WithDigest_err (lib env) md = None \<and> AddDigest_err (sto env) (Canonical (ref_name r) md) i = None
           \<longrightarrow> res = Inr False \<and> refs st' (Canonical (ref_name r) md) = Some i)
      \<and> (\<forall>e. WithDigest_err (lib env) md = Some e
              \<or> WithDigest_err (lib env) md = None \<and> AddDigest_err (sto env) (Canonical (ref_name r) md) i = Some e
           \<longrightarrow> res = Inl e \<and> refs st' = refs st))
   \<and> (has_ReferenceStore (cfg env) \<and> ref_Get_err (sto env) r = None \<and> refs st r \<noteq> Some i
        \<and> WithDigest_err (lib env) md = None
        \<and> (\<forall>k. AddDigest_err (sto env) k i = None) \<and> AddTag_err (sto env) r i = None
      \<longrightarrow> res = Inr True
        \<and> refs st' r = Some i
        \<and> (\<forall>n t. r = Tagged n t \<longrightarrow> refs st' (Canonical n md) = Some i \<and> refs st' (Tagged n t) = Some i)
        \<and> (\<forall>k. k \<noteq> r \<and> k \<noteq> Canonical (ref_name r) md \<longrightarrow> refs st' k = refs st k)
        \<and> images st' = images st)
   \<and> (has_ReferenceStore (cfg env) \<and> ref_Get_err (sto env) r = None \<and> refs st r \<noteq> Some i \<longrightarrow>
        (\<forall>n t e. r = Tagged n t
            \<and> (WithDigest_err (lib env) md = Some e
                \<or> WithDigest_err (lib env) md = None \<and> AddDigest_err (sto env) (Canonical n md) i = Some e)
          \<longrightarrow> res = Inl e \<and> refs st' = refs st)
      \<and> (\<forall>n t e. r = Tagged n t
            \<and> WithDigest_err (lib env) md = None \<and> AddDigest_err (sto env) (Canonical n md) i = None
            \<and> AddTag_err (sto env) r i = Some e
          \<longrightarrow> res = Inl e \<and> refs st' = (refs st)(Canonical n md \<mapsto> i))
      \<and> (\<forall>n d e. r = Canonical n d \<and> AddDigest_err (sto env) r i = Some e
          \<longrightarrow> res = Inl e \<and> refs st' = refs st))
   \<and> (\<not> has_ReferenceStore (cfg env) \<longrightarrow> res = Inr True \<and> refs st' = refs st \<and> images st' = images st)
   \<and> (\<forall>fuel st0 st1 b. \<not> IsNameOnly r \<and> pullTag fuel env st0 r (cfg_Platform (cfg env)) = Some (st1, Inr b) \<longrightarrow>
         (\<exists>st2. pullRepository fuel env st0 r = Some (st2, None)
            \<and> out st2 = out st1 @ [('''', (if b then ''Status: Downloaded newer image for ''
                                          else ''Status: Image is up to date for '') @ FamiliarString (lib env) r)]
            \<and> images st2 = images st1 \<and> refs st2 = refs st1))
   \<and> (\<forall>fuel st0 st1 e. \<not> IsNameOnly r \<and> pullTag fuel env st0 r (cfg_Platform (cfg env)) = Some (st1, Inl e) \<longrightarrow>
         pullRepository fuel env st0 r = Some (st1, Some e))"
proof -
  have a: "has_ReferenceStore (cfg env) \<and> ref_Get_err (sto env) r = None \<and> refs st r = Some i \<longrightarrow>
        res \<noteq> Inr True
      \<and> (\<forall>n t. refs st' (Tagged n t) = refs st (Tagged n t))
      \<and> (\<forall>k. k \<noteq> Canonical (ref_name r) md \<longrightarrow> refs st' k = refs st k)
      \<and> images st' = images st
      \<and> (WithDigest_err (lib env) md = None \<and> AddDigest_err (sto env) (Canonical (ref_name r) md) i = None
           \<longrightarrow> res = Inr False \<and> refs st' (Canonical (ref_name r) md) = Some i)
      \<and> (\<forall>e. WithDigest_err (lib env) md = Some e
              \<or> WithDigest_err (lib env) md = None \<and> AddDigest_err (sto env) (Canonical (ref_name r) md) i = Some e
           \<longrightarrow> res = Inl e \<and> refs st' = refs st)"
  proof (intro impI, elim conjE)
    assume h: "has_ReferenceStore (cfg env)" "ref_Get_err (sto env) r = None" "refs st r = Some i"
    from pullTag_references_same[OF h(1,2) run h(3)]
    show "res \<noteq> Inr True
      \<and> (\<forall>n t. refs st' (Tagged n t) = refs st (Tagged n t))
      \<and> (\<forall>k. k \<noteq> Canonical (ref_name r) md \<longrightarrow> refs st' k = refs st k)
      \<and> images st' = images st
      \<and> (WithDigest_err (lib env) md = None \<and> AddDigest_err (sto env) (Canonical (ref_name r) md) i = None
           \<longrightarrow> res = Inr False \<and> refs st' (Canonical (ref_name r) md) = Some i)
      \<and> (\<forall>e. WithDigest_err (lib env) md = Some e
              \<or> WithDigest_err (lib env) md = None \<and> AddDigest_err (sto env) (Canonical (ref_name r) md) i = Some e
           \<longrightarrow> res = Inl e \<and> refs st' = refs st)" .
  qed
  have b: "has_ReferenceStore (cfg env) \<and> ref_Get_err (sto env) r = None \<and> refs st r \<noteq> Some i
        \<and> WithDigest_err (lib env) md = None
        \<and> (\<forall>k. AddDigest_err (sto env) k i = None) \<and> AddTag_err (sto env) r i = None
      \<longrightarrow> res = Inr True
        \<and> refs st' r = Some i
        \<and> (\<forall>n t. r = Tagged n t \<longrightarrow> refs st' (Canonical n md) = Some i \<and> refs st' (Tagged n t) = Some i)
        \<and> (\<forall>k. k \<noteq> r \<and> k \<noteq> Canonical (ref_name r) md \<longrightarrow> refs st' k = refs st k)
        \<and> images st' = images st"
  proof (intro impI, elim conjE)
    assume h: "has_ReferenceStore (cfg env)" "ref_Get_err (sto env) r = None" "refs st r \<noteq> Some i"
      and ok: "WithDigest_err (lib env) md = None" "\<forall>k. AddDigest_err (sto env) k i = None"
        "AddTag_err (sto env) r i = None"
    from pullTag_references_other[OF h(1,2) run h(3), THEN conjunct1] ok
    show "res = Inr True
        \<and> refs st' r = Some i
        \<and> (\<forall>n t. r = Tagged n t \<longrightarrow> refs st' (Canonical n md) = Some i \<and> refs st' (Tagged n t) = Some i)
        \<and> (\<forall>k. k \<noteq> r \<and> k \<noteq> Canonical (ref_name r) md \<longrightarrow> refs st' k = refs st k)
        \<and> images st' = images st"
      by blast
  qed
  have c: "has_ReferenceStore (cfg env) \<and> ref_Get_err (sto env) r = None \<and> refs st r \<noteq> Some i \<longrightarrow>
        (\<forall>n t e. r = Tagged n t
            \<and> (WithDigest_err (lib env) md = Some e
                \<or> WithDigest_err (lib env) md = None \<and> AddDigest_err (sto env) (Canonical n md) i = Some e)
          \<longrightarrow> res = Inl e \<and> refs st' = refs st)
      \<and> (\<forall>n t e. r = Tagged n t
            \<and> WithDigest_err (lib env) md = None \<and> AddDigest_err (sto env) (Canonical n md) i = None
            \<and> AddTag_err (sto env) r i = Some e
          \<longrightarrow> res = Inl e \<and> refs st' = (refs st)(Canonical n md \<mapsto> i))
      \<and> (\<forall>n d e. r = Canonical n d \<and> AddDigest_err (sto env) r i = Some e
          \<longrightarrow> res = Inl e \<and> refs st' = refs st)"
  proof (intro impI, elim conjE)
    assume h: "has_ReferenceStore (cfg env)" "ref_Get_err (sto env) r = None" "refs st r \<noteq> Some i"
    from pullTag_references_other[OF h(1,2) run h(3), THEN conjunct2]
    show "(\<forall>n t e. r = Tagged n t
            \<and> (WithDigest_err (lib env) md = Some e
                \<or> WithDigest_err (lib env) md = None \<and> AddDigest_err (sto env) (Canonical n md) i = Some e)
          \<longrightarrow> res = Inl e \<and> refs st' = refs st)
      \<and> (\<forall>n t e. r = Tagged n t
            \<and> WithDigest_err (lib env) md = None \<and> AddDigest_err (sto env) (Canonical n md) i = None
            \<and> AddTag_err (sto env) r i = Some e
          \<longrightarrow> res = Inl e \<and> refs st' = (refs st)(Canonical n md \<mapsto> i))
      \<and> (\<forall>n d e. r = Canonical n d \<and> AddDigest_err (sto env) r i = Some e
          \<longrightarrow> res = Inl e \<and> refs st' = refs st)" .
  qed
  have n: "\<not> has_ReferenceStore (cfg env) \<longrightarrow> res = Inr True \<and> refs st' = refs st \<and> images st' = images st"
    using run by (auto simp: pullTag_references_def Let_def progress_Message_def)
  have s: "\<forall>fuel st0 st1 b. \<not> IsNameOnly r \<and> pullTag fuel env st0 r (cfg_Platform (cfg env)) = Some (st1, Inr b) \<longrightarrow>
         (\<exists>st2. pullRepository fuel env st0 r = Some (st2, None)
            \<and> out st2 = out st1 @ [('''', (if b then ''Status: Downloaded newer image for ''
                                          else ''Status: Image is up to date for '') @ FamiliarString (lib env) r)]
            \<and> images st2 = images st1 \<and> refs st2 = refs st1)"
    by (auto simp: pullRepository_def writeStatus_def progress_Message_def)
  have e: "\<forall>fuel st0 st1 e. \<not> IsNameOnly r \<and> pullTag fuel env st0 r (cfg_Platform (cfg env)) = Some (st1, Inl e) \<longrightarrow>
         pullRepository fuel env st0 r = Some (st1, Some e)"
    by (auto simp: pullRepository_def)
  from a b c n s e show ?thesis by blast
qed

theorem pullTag_references_reconcile_witness:
  "has_ReferenceStore (cfg env0) \<and> ref_Get_err (sto env0) (Tagged ''app'' ''v1'') = None
   \<and> refs state2 (Tagged ''app'' ''v1'') = Some ''sha256:ab''
   \<and> snd (pullTag_references env0 state2 (Tagged ''app'' ''v1'') ''sha256:ab'' ''sha256:m1'') = Inr False
   \<and> refs (fst (pullTag_references env0 state2 (Tagged ''app'' ''v1'') ''sha256:ab'' ''sha256:m1''))
        (Canonical ''app'' ''sha256:m1'') = Some ''sha256:ab''
   \<and> refs (fst (pullTag_references env0 state2 (Tagged ''app'' ''v1'') ''sha256:ab'' ''sha256:m1''))
        (Tagged ''app'' ''v1'') = refs state2 (Tagged ''app'' ''v1'')
   \<and> AddDigest_err (sto env_nodigest) (Canonical ''app'' ''sha256:m1'') ''sha256:ab'' = Some (Other ''read-only'')
   \<and> snd (pullTag_references env_nodigest state2 (Tagged ''app'' ''v1'') ''sha256:ab'' ''sha256:m1'')
        = Inl (Other ''read-only'')
   \<and> refs (fst (pullTag_references env_nodigest state2 (Tagged ''app'' ''v1'') ''sha256:ab'' ''sha256:m1''))
        = refs state2
   \<and> refs state1 (Tagged ''app'' ''v1'') \<noteq> Some ''sha256:ab''
   \<and> snd (pullTag_references env0 state1 (Tagged ''app'' ''v1'') ''sha256:ab'' ''sha256:m1'') = Inr True
   \<and> refs (fst (pullTag_references env0 state1 (Tagged ''app'' ''v1'') ''sha256:ab'' ''sha256:m1''))
        (Canonical ''app'' ''sha256:m1'') = Some ''sha256:ab''
   \<and> refs (fst (pullTag_references env0 state1 (Tagged ''app'' ''v1'') ''sha256:ab'' ''sha256:m1''))
        (Tagged ''app'' ''v1'') = Some ''sha256:ab''
   \<and> snd (pullTag_references env_nodigest state1 (Tagged ''app'' ''v1'') ''sha256:ab'' ''sha256:m1'')
        = Inl (Other ''read-only'')
   \<and> refs (fst (pullTag_references env_nodigest state1 (Tagged ''app'' ''v1'') ''sha256:ab'' ''sha256:m1''))
        = refs state1
   \<and> AddTag_err (sto env_readonly) (Tagged ''app'' ''v1'') ''sha256:ab'' = Some (Other ''read-only'')
   \<and> snd (pullTag_references env_readonly state1 (Tagged ''app'' ''v1'') ''sha256:ab'' ''sha256:m1'')
        = Inl (Other ''read-only'')
   \<and> refs (fst (pullTag_references env_readonly state1 (Tagged ''app'' ''v1'') ''sha256:ab'' ''sha256:m1''))
        = (refs state1)(Canonical ''app'' ''sha256:m1'' \<mapsto> ''sha256:ab'')
   \<and> snd (pullTag_references env_nodigest state1 (Canonical ''app'' ''sha256:m1'') ''sha256:ab'' ''sha256:m1'')
        = Inl (Other ''read-only'')
   \<and> refs (fst (pullTag_references env_nodigest state1 (Canonical ''app'' ''sha256:m1'') ''sha256:ab'' ''sha256:m1''))
        = refs state1
   \<and> \<not> has_ReferenceStore (cfg env_norefs)
   \<and> snd (pullTag_references env_norefs state1 (Tagged ''app'' ''v1'') ''sha256:ab'' ''sha256:m1'') = Inr True
   \<and> refs (fst (pullTag_references env_norefs state1 (Tagged ''app'' ''v1'') ''sha256:ab'' ''sha256:m1'')) = refs state1
   \<and> snd (the (pullTag 1 env0 state2 (Tagged ''app'' ''v1'') (cfg_Platform (cfg env0)))) = Inr False
   \<and> (\<exists>st2. pullRepository 1 env0 state2 (Tagged ''app'' ''v1'') = Some (st2, None)
         \<and> last (out st2) = ('''', ''Status: Image is up to date for app:v1''))
   \<and> snd (the (pullTag 1 env_nodigest state2 (Tagged ''app'' ''v1'') (cfg_Platform (cfg env_nodigest))))
        = Inl (Other ''read-only'')
   \<and> pullRepository 1 env_nodigest state2 (Tagged ''app'' ''v1'')
        = Some (fst (the (pullTag 1 env_nodigest state2 (Tagged ''app'' ''v1'') (cfg_Platform (cfg env_nodigest)))),
                Some (Other ''read-only''))"
proof -
  let ?r = "Tagged ''app'' ''v1''"
  let ?cr = "Canonical ''app'' ''sha256:m1''"
  let ?ro = "Other ''read-only''"
  let ?a = "pullTag_references env0 state2 ?r ''sha256:ab'' ''sha256:m1''"
  let ?a' = "pullTag_references env_nodigest state2 ?r ''sha256:ab'' ''sha256:m1''"
  let ?b = "pullTag_references env0 state1 ?r ''sha256:ab'' ''sha256:m1''"
  let ?b1 = "pullTag_references env_nodigest state1 ?r ''sha256:ab'' ''sha256:m1''"
  let ?b2 = "pullTag_references env_readonly state1 ?r ''sha256:ab'' ''sha256:m1''"
  let ?b3 = "pullTag_references env_nodigest state1 ?cr ''sha256:ab'' ''sha256:m1''"
  let ?c = "pullTag_references env_norefs state1 ?r ''sha256:ab'' ''sha256:m1''"
  let ?t = "pullTag 1 env0 state2 ?r (cfg_Platform (cfg env0))"
  let ?u = "pullTag 1 env_nodigest state2 ?r (cfg_Platform (cfg env_nodigest))"
  have rs: "has_ReferenceStore (cfg env0)" by (simp add: config0_def)
  have rsd: "has_ReferenceStore (cfg env_nodigest)" by (simp add: env_nodigest_def env0_def config0_def)
  have rsr: "has_ReferenceStore (cfg env_readonly)" by (simp add: env_readonly_def env0_def config0_def)
  have nr: "\<not> has_ReferenceStore (cfg env_norefs)" by (simp add: env_norefs_def config0_def)
  have g: "ref_Get_err (sto env0) ?r = None" by (simp add: stores0_def)
  have gd: "ref_Get_err (sto env_nodigest) ?r = None" "ref_Get_err (sto env_nodigest) ?cr = None"
    by (simp_all add: env_nodigest_def stores0_def)
  have gr: "ref_Get_err (sto env_readonly) ?r = None" by (simp add: env_readonly_def stores0_def)
  have ea: "?a = (fst ?a, snd ?a)" and ea': "?a' = (fst ?a', snd ?a')" and eb: "?b = (fst ?b, snd ?b)"
    and eb1: "?b1 = (fst ?b1, snd ?b1)" and eb2: "?b2 = (fst ?b2, snd ?b2)"
    and eb3: "?b3 = (fst ?b3, snd ?b3)" and ec: "?c = (fst ?c, snd ?c)"
    by simp_all
  have s2: "refs state2 ?r = Some ''sha256:ab''" by (simp add: state2_def state1_def state0_def)
  have s1: "refs state1 ?r \<noteq> Some ''sha256:ab''" by (simp add: state1_def state0_def)
  have s1c: "refs state1 ?cr \<noteq> Some ''sha256:ab''" by (simp add: state1_def state0_def)
  have ok: "WithDigest_err (lib env0) ''sha256:m1'' = None"
    "\<forall>k. AddDigest_err (sto env0) k ''sha256:ab'' = None"
    "AddTag_err (sto env0) ?r ''sha256:ab'' = None"
    by (simp_all add: lib0_def stores0_def)
  have wd: "WithDigest_err (lib env_nodigest) ''sha256:m1'' = None"
    by (simp add: env_nodigest_def env0_def lib0_def)
  have wr: "WithDigest_err (lib env_readonly) ''sha256:m1'' = None"
    by (simp add: env_readonly_def env0_def lib0_def)
  have nd: "AddDigest_err (sto env_nodigest) ?cr ''sha256:ab'' = Some ?ro"
    by (simp add: env_nodigest_def)
  have rd: "AddDigest_err (sto env_readonly) ?cr ''sha256:ab'' = None"
    by (simp add: env_readonly_def stores0_def)
  have rt: "AddTag_err (sto env_readonly) ?r ''sha256:ab'' = Some ?ro"
    by (simp add: env_readonly_def)
  note ta = pullTag_references_reconcile[OF ea, THEN conjunct1, rule_format, OF conjI[OF rs conjI[OF g s2]]]
  from ta have a1: "refs (fst ?a) ?r = refs state2 ?r" by blast
  from ta ok have a2: "snd ?a = Inr False \<and> refs (fst ?a) (Canonical (ref_name ?r) ''sha256:m1'') = Some ''sha256:ab''"
    by blast
  from a1 a2 have a: "snd ?a = Inr False" "refs (fst ?a) ?cr = Some ''sha256:ab''"
    "refs (fst ?a) ?r = refs state2 ?r"
    by simp_all
  note ta' = pullTag_references_reconcile[OF ea', THEN conjunct1, rule_format, OF conjI[OF rsd conjI[OF gd(1) s2]]]
  have nd': "WithDigest_err (lib env_nodigest) ''sha256:m1'' = Some ?ro
      \<or> WithDigest_err (lib env_nodigest) ''sha256:m1'' = None
        \<and> AddDigest_err (sto env_nodigest) (Canonical (ref_name ?r) ''sha256:m1'') ''sha256:ab'' = Some ?ro"
    using wd nd by simp
  from ta' nd' have a': "snd ?a' = Inl ?ro" "refs (fst ?a') = refs state2" by blast+
  note tb = pullTag_references_reconcile[OF eb, THEN conjunct2, THEN conjunct1, rule_format,
      OF conjI[OF rs conjI[OF g conjI[OF s1 conjI[OF ok(1) conjI[OF ok(2) ok(3)]]]]]]
  from tb have b: "snd ?b = Inr True" "refs (fst ?b) ?cr = Some ''sha256:ab''"
    "refs (fst ?b) ?r = Some ''sha256:ab''"
    by blast+
  note tb1 = pullTag_references_reconcile[OF eb1, THEN conjunct2, THEN conjunct2, THEN conjunct1, rule_format,
      OF conjI[OF rsd conjI[OF gd(1) s1]], THEN conjunct1, rule_format, of "''app''" "''v1''" ?ro]
  from tb1 wd nd have b1: "snd ?b1 = Inl ?ro" "refs (fst ?b1) = refs state1" by blast+
  note tb2 = pullTag_references_reconcile[OF eb2, THEN conjunct2, THEN conjunct2, THEN conjunct1, rule_format,
      OF conjI[OF rsr conjI[OF gr s1]], THEN conjunct2, THEN conjunct1, rule_format, of "''app''" "''v1''" ?ro]
  from tb2 wr rd rt have b2: "snd ?b2 = Inl ?ro" "refs (fst ?b2) = (refs state1)(?cr \<mapsto> ''sha256:ab'')"
    by blast+
  note tb3 = pullTag_references_reconcile[OF eb3, THEN conjunct2, THEN conjunct2, THEN conjunct1, rule_format,
      OF conjI[OF rsd conjI[OF gd(2) s1c]], THEN conjunct2, THEN conjunct2, rule_format,
      of "''app''" "''sha256:m1''" ?ro]
  from tb3 nd have b3: "snd ?b3 = Inl ?ro" "refs (fst ?b3) = refs state1" by blast+
  note tc = pullTag_references_reconcile[OF ec, THEN conjunct2, THEN conjunct2, THEN conjunct2, THEN conjunct1,
      rule_format, OF nr]
  from tc have c: "snd ?c = Inr True" "refs (fst ?c) = refs state1" by blast+
  have tn: "?t \<noteq> None" by code_simp
  have tr: "snd (the ?t) = Inr False" by code_simp
  from tn tr have te: "?t = Some (fst (the ?t), Inr False)" by (metis option.collapse prod.collapse)
  have o: "out (fst (the ?t)) = [(''v1'', ''Pulling from app''), ([], ''Digest: sha256:m1'')]" by code_simp
  have f: "FamiliarString (lib env0) ?r = ''app:v1''" by (simp add: lib0_def)
  have nn: "\<not> IsNameOnly ?r" by simp
  note td = pullTag_references_reconcile[OF ea, THEN conjunct2, THEN conjunct2, THEN conjunct2, THEN conjunct2,
      THEN conjunct1, rule_format, OF conjI[OF nn te]]
  from td obtain st2 where "pullRepository 1 env0 state2 ?r = Some (st2, None)"
    "out st2 = out (fst (the ?t)) @ [('''', (if False then ''Status: Downloaded newer image for ''
                                          else ''Status: Image is up to date for '') @ FamiliarString (lib env0) ?r)]"
    by blast
  with o f have d: "\<exists>st2. pullRepository 1 env0 state2 ?r = Some (st2, None)
         \<and> last (out st2) = ('''', ''Status: Image is up to date for app:v1'')"
    by auto
  have un: "?u \<noteq> None" by code_simp
  have ur: "snd (the ?u) = Inl ?ro" by code_simp
  from un ur have ue: "?u = Some (fst (the ?u), Inl ?ro)" by (metis option.collapse prod.collapse)
  note e = pullTag_references_reconcile[OF ea', THEN conjunct2, THEN conjunct2, THEN conjunct2, THEN conjunct2,
      THEN conjunct2, rule_format, OF conjI[OF nn ue]]
  from rs g s2 a nd a' s1 b b1 rt b2 b3 nr c tr d ur e show ?thesis by blast
qed

theorem pullTag_references_not_added_counterexample:
  "refs state1 (Tagged ''app'' ''v1'') = None
   \<and> snd (pullTag_references env_readonly state1 (Tagged ''app'' ''v1'') ''sha256:ab'' ''sha256:m1'')
        = Inl (Other ''read-only'')
   \<and> refs (fst (pullTag_references env_readonly state1 (Tagged ''app'' ''v1'') ''sha256:ab'' ''sha256:m1''))
        (Tagged ''app'' ''v1'') = None
   \<and> refs (fst (pullTag_references env_readonly state1 (Tagged ''app'' ''v1'') ''sha256:ab'' ''sha256:m1''))
        (Canonical ''app'' ''sha256:m1'') = Some ''sha256:ab''
   \<and> snd (pullTag_references env_norefs state1 (Tagged ''app'' ''v1'') ''sha256:ab'' ''sha256:m1'') = Inr True
   \<and> refs (fst (pullTag_references env_norefs state1 (Tagged ''app'' ''v1'') ''sha256:ab'' ''sha256:m1''))
        (Tagged ''app'' ''v1'') = None
   \<and> refs (fst (pullTag_references env_norefs state1 (Tagged ''app'' ''v1'') ''sha256:ab'' ''sha256:m1''))
        (Canonical ''app'' ''sha256:m1'') = None
   \<and> refs state2 (Tagged ''app'' ''v1'') = Some ''sha256:ab''
   \<and> snd (pullTag_references env_nodigest state2 (Tagged ''app'' ''v1'') ''sha256:ab'' ''sha256:m1'')
        = Inl (Other ''read-only'')
   \<and> refs (fst (pullTag_references env_nodigest state2 (Tagged ''app'' ''v1'') ''sha256:ab'' ''sha256:m1''))
        (Canonical ''app'' ''sha256:m1'') = None
   \<and> map_option (\<lambda>(s, e). (e, out s, refs s (Canonical ''app'' ''sha256:m1'')))
        (pull 1 env_nodigest state2 (Tagged ''app'' ''v1''))
        = Some (Some (Other ''read-only''),
                [(''v1'', ''Pulling from app''), ('''', ''Digest: sha256:m1'')], None)"
  by code_simp

section \<open>Pulling all tags\<close>

lemma pullAllTags_append:
  "pullAllTags fuel env st r (ts1 @ ts2) ld =
     (case pullAllTags fuel env st r ts1 ld of
        None \<Rightarrow> None
      | Some (st1, Inl e) \<Rightarrow> Some (st1, Inl e)
      | Some (st1, Inr ld1) \<Rightarrow> pullAllTags fuel env st1 r ts2 ld1)"
  by (induction ts1 arbitrary: st ld) (auto split: option.splits sum.splits prod.splits)


lemma unwrap_fallback_case: "(case e of fallbackError e' t \<Rightarrow> e' | _ \<Rightarrow> e) = unwrap_fallback e"
  by (cases e) auto

text \<open>
  C8. For a reference without tag or digest \<open>pullRepository\<close> pulls the tags that the
  tag service lists, one after the other in the order of the list, each on the state
  the one before left. When the pull of a tag returns an error, the loop returns that
  error (unwrapped if it is a \<open>fallbackError\<close>) with the state as that pull left it: no
  later tag is pulled, and \<open>pullRepository\<close> returns the error. When the loop returns
  without error, every tag of the list has been pulled and none has failed.
\<close>

theorem pullAllTags_aborts_at_first_error:
  "(\<forall>ts1 t ts2 st1 ld1 st2 e.
       tags = ts1 @ t # ts2
     \<and> pullAllTags fuel env st r ts1 ld = Some (st1, Inr ld1)
     \<and> WithTag_err (lib env) t = None
     \<and> pullTag fuel env st1 (Tagged (ref_name r) t) (cfg_Platform (cfg env)) = Some (st2, Inl e)
     \<longrightarrow> pullAllTags fuel env st r tags ld = Some (st2, Inl (unwrap_fallback e))
         \<and> (tags_All (reg env) = Inr tags \<and> ld = False \<longrightarrow>
              pullRepository fuel env st (NameOnly (ref_name r)) = Some (st2, Some (unwrap_fallback e))))
   \<and> (\<forall>st' b. pullAllTags fuel env st r tags ld = Some (st', Inr b) \<longrightarrow>
        (\<forall>ts1 t ts2. tags = ts1 @ t # ts2 \<longrightarrow>
           (\<exists>st1 ld1 st2 pulledNew.
               pullAllTags fuel env st r ts1 ld = Some (st1, Inr ld1)
             \<and> WithTag_err (lib env) t = None
             \<and> pullTag fuel env st1 (Tagged (ref_name r) t) (cfg_Platform (cfg env)) = Some (st2, Inr pulledNew)
             \<and> pullAllTags fuel env st r (ts1 @ [t]) ld = Some (st2, Inr (ld1 \<or> pulledNew)))))
   \<and> (\<forall>ts1 t ts2 st1 ld1 e.
       tags = ts1 @ t # ts2
     \<and> pullAllTags fuel env st r ts1 ld = Some (st1, Inr ld1)
     \<and> WithTag_err (lib env) t = Some e
     \<longrightarrow> pullAllTags fuel env st r tags ld = Some (st1, Inl e))"
proof -
  have 1: "\<forall>ts1 t ts2 st1 ld1 st2 e.
       tags = ts1 @ t # ts2
     \<and> pullAllTags fuel env st r ts1 ld = Some (st1, Inr ld1)
     \<and> WithTag_err (lib env) t = None
     \<and> pullTag fuel env st1 (Tagged (ref_name r) t) (cfg_Platform (cfg env)) = Some (st2, Inl e)
     \<longrightarrow> pullAllTags fuel env st r tags ld = Some (st2, Inl (unwrap_fallback e))
         \<and> (tags_All (reg env) = Inr tags \<and> ld = False \<longrightarrow>
              pullRepository fuel env st (NameOnly (ref_name r)) = Some (st2, Some (unwrap_fallback e)))"
  proof (intro allI impI, elim conjE)
    fix ts1 t ts2 st1 ld1 st2 e
    assume t: "tags = ts1 @ t # ts2"
      and p: "pullAllTags fuel env st r ts1 ld = Some (st1, Inr ld1)"
      and w: "WithTag_err (lib env) t = None"
      and f: "pullTag fuel env st1 (Tagged (ref_name r) t) (cfg_Platform (cfg env)) = Some (st2, Inl e)"
    have a: "pullAllTags fuel env st r tags ld = Some (st2, Inl (unwrap_fallback e))"
      using t p w f by (simp add: pullAllTags_append unwrap_fallback_case)
    have n: "pullAllTags fuel env st (NameOnly (ref_name r)) tags ld = pullAllTags fuel env st r tags ld"
      for tags st ld
      by (induction tags arbitrary: st ld) (auto split: option.splits sum.splits prod.splits)
    from a n show "pullAllTags fuel env st r tags ld = Some (st2, Inl (unwrap_fallback e))
         \<and> (tags_All (reg env) = Inr tags \<and> ld = False \<longrightarrow>
              pullRepository fuel env st (NameOnly (ref_name r)) = Some (st2, Some (unwrap_fallback e)))"
      by (auto simp: pullRepository_def)
  qed
  have 2: "\<forall>st' b. pullAllTags fuel env st r tags ld = Some (st', Inr b) \<longrightarrow>
        (\<forall>ts1 t ts2. tags = ts1 @ t # ts2 \<longrightarrow>
           (\<exists>st1 ld1 st2 pulledNew.
               pullAllTags fuel env st r ts1 ld = Some (st1, Inr ld1)
             \<and> WithTag_err (lib env) t = None
             \<and> pullTag fuel env st1 (Tagged (ref_name r) t) (cfg_Platform (cfg env)) = Some (st2, Inr pulledNew)
             \<and> pullAllTags fuel env st r (ts1 @ [t]) ld = Some (st2, Inr (ld1 \<or> pulledNew))))"
  proof (intro allI impI)
    fix st' b ts1 t ts2
    assume ok: "pullAllTags fuel env st r tags ld = Some (st', Inr b)" and t: "tags = ts1 @ t # ts2"
    from ok t obtain st1 ld1 where p: "pullAllTags fuel env st r ts1 ld = Some (st1, Inr ld1)"
      and q: "pullAllTags fuel env st1 r (t # ts2) ld1 = Some (st', Inr b)"
      by (auto simp: pullAllTags_append split: option.splits sum.splits prod.splits)
    from q obtain st2 pulledNew where w: "WithTag_err (lib env) t = None"
      and f: "pullTag fuel env st1 (Tagged (ref_name r) t) (cfg_Platform (cfg env)) = Some (st2, Inr pulledNew)"
      by (auto split: option.splits sum.splits prod.splits)
    from p w f have "pullAllTags fuel env st r (ts1 @ [t]) ld = Some (st2, Inr (ld1 \<or> pulledNew))"
      by (simp add: pullAllTags_append)
    with p w f show "\<exists>st1 ld1 st2 pulledNew.
               pullAllTags fuel env st r ts1 ld = Some (st1, Inr ld1)
             \<and> WithTag_err (lib env) t = None
             \<and> pullTag fuel env st1 (Tagged (ref_name r) t) (cfg_Platform (cfg env)) = Some (st2, Inr pulledNew)
             \<and> pullAllTags fuel env st r (ts1 @ [t]) ld = Some (st2, Inr (ld1 \<or> pulledNew))"
      by blast
  qed
  have 3: "\<forall>ts1 t ts2 st1 ld1 e.
       tags = ts1 @ t # ts2
     \<and> pullAllTags fuel env st r ts1 ld = Some (st1, Inr ld1)
     \<and> WithTag_err (lib env) t = Some e
     \<longrightarrow> pullAllTags fuel env st r tags ld = Some (st1, Inl e)"
    by (simp add: pullAllTags_append)
  from 1 2 3 show ?thesis by blast
qed

theorem pullAllTags_aborts_at_first_error_witness:
  "snd (the (pullAllTags 1 env_tags state0 (NameOnly ''app'') [''v1''] False)) = Inr True
   \<and> WithTag_err (lib env_tags) ''gone'' = None
   \<and> pullTag 1 env_tags (fst (the (pullAllTags 1 env_tags state0 (NameOnly ''app'') [''v1''] False)))
        (Tagged ''app'' ''gone'') (cfg_Platform (cfg env_tags))
      = Some (fst (the (pullAllTags 1 env_tags state0 (NameOnly ''app'') [''v1''] False)), Inl (Other ''tag unknown''))
   \<and> pullAllTags 1 env_tags state0 (NameOnly ''app'') [''v1'', ''gone''] False
      = Some (fst (the (pullAllTags 1 env_tags state0 (NameOnly ''app'') [''v1''] False)), Inl (Other ''tag unknown''))
   \<and> pullRepository 1 env_tags state0 (NameOnly ''app'')
      = Some (fst (the (pullAllTags 1 env_tags state0 (NameOnly ''app'') [''v1''] False)), Some (Other ''tag unknown''))
   \<and> snd (the (pullAllTags 1 env0 state0 (NameOnly ''app'') [''v1'', ''v2''] False)) = Inr True
   \<and> (\<exists>st1 ld1 st2 pulledNew.
         pullAllTags 1 env0 state0 (NameOnly ''app'') [''v1''] False = Some (st1, Inr ld1)
       \<and> pullTag 1 env0 st1 (Tagged ''app'' ''v2'') (cfg_Platform (cfg env0)) = Some (st2, Inr pulledNew))
   \<and> snd (the (pullAllTags 1 env_badtag state0 (NameOnly ''app'') [''v1''] False)) = Inr True
   \<and> WithTag_err (lib env_badtag) ''v 2'' = Some (Other ''invalid tag format'')
   \<and> pullAllTags 1 env_badtag state0 (NameOnly ''app'') [''v1'', ''v 2''] False
      = Some (fst (the (pullAllTags 1 env_badtag state0 (NameOnly ''app'') [''v1''] False)),
              Inl (Other ''invalid tag format''))"
proof -
  let ?r = "NameOnly ''app''"
  let ?p = "pullAllTags 1 env_tags state0 ?r [''v1''] False"
  let ?q = "pullAllTags 1 env0 state0 ?r [''v1'', ''v2''] False"
  have env: "lib env_tags = lib0" "cfg env_tags = config0" "reg env_tags = registry0\<lparr>tags_All := Inr [''v1'', ''gone'']\<rparr>"
    by (simp_all add: env_tags_def env0_def)
  have pn: "?p \<noteq> None" by code_simp
  have pr: "snd (the ?p) = Inr True" by code_simp
  from pn pr have pe: "?p = Some (fst (the ?p), Inr True)" by (metis option.collapse prod.collapse)
  have w: "WithTag_err (lib env_tags) ''gone'' = None" by (simp add: env lib0_def)
  have f: "pullTag 1 env_tags (fst (the ?p)) (Tagged (ref_name ?r) ''gone'') (cfg_Platform (cfg env_tags))
      = Some (fst (the ?p), Inl (Other ''tag unknown''))"
    by (simp add: pullTag_def pullTag_content_def pullTag_manifest_def env registry0_def)
  have ta: "tags_All (reg env_tags) = Inr [''v1'', ''gone'']" by (simp add: env)
  from pullAllTags_aborts_at_first_error[where tags="[''v1'', ''gone'']" and fuel=1 and env=env_tags
      and st=state0 and r="?r" and ld=False] pe w f ta
  have a: "pullAllTags 1 env_tags state0 ?r [''v1'', ''gone''] False
             = Some (fst (the ?p), Inl (unwrap_fallback (Other ''tag unknown'')))
         \<and> pullRepository 1 env_tags state0 (NameOnly (ref_name ?r))
             = Some (fst (the ?p), Some (unwrap_fallback (Other ''tag unknown'')))"
    by (metis append_Cons append_Nil)
  have qn: "?q \<noteq> None" by code_simp
  have qr: "snd (the ?q) = Inr True" by code_simp
  from qn qr have qe: "?q = Some (fst (the ?q), Inr True)" by (metis option.collapse prod.collapse)
  from pullAllTags_aborts_at_first_error[where tags="[''v1'', ''v2'']" and fuel=1 and env=env0
      and st=state0 and r="?r" and ld=False] qe
  have b: "\<exists>st1 ld1 st2 pulledNew.
         pullAllTags 1 env0 state0 ?r [''v1''] False = Some (st1, Inr ld1)
       \<and> pullTag 1 env0 st1 (Tagged ''app'' ''v2'') (cfg_Platform (cfg env0)) = Some (st2, Inr pulledNew)"
    by (metis append_Cons append_Nil ref_name.simps(1))
  let ?u = "pullAllTags 1 env_badtag state0 ?r [''v1''] False"
  have un: "?u \<noteq> None" by code_simp
  have ur: "snd (the ?u) = Inr True" by code_simp
  from un ur have ue: "?u = Some (fst (the ?u), Inr True)" by (metis option.collapse prod.collapse)
  have wb: "WithTag_err (lib env_badtag) ''v 2'' = Some (Other ''invalid tag format'')"
    by (simp add: env_badtag_def env0_def lib0_def)
  have sp: "[''v1'', ''v 2''] = [''v1''] @ ''v 2'' # []" by simp
  note tw = pullAllTags_aborts_at_first_error[where tags="[''v1'', ''v 2'']" and fuel=1 and env=env_badtag
      and st=state0 and r="?r" and ld=False, THEN conjunct2, THEN conjunct2, rule_format,
      OF conjI[OF sp conjI[OF ue wb]]]
  from pr w f a qr b ur wb tw show ?thesis by simp
qed

section \<open>Properties of the layer download\<close>

lemma truncateDownloadFile_ok:
  "tmpFile ld \<noteq> None \<Longrightarrow> truncate_Seek_err io = None \<Longrightarrow> Truncate_err io = None \<Longrightarrow>
     truncateDownloadFile io ld = (ld\<lparr>verifier := None, tmpFile := Some []\<rparr>, None)"
  by (auto simp: truncateDownloadFile_def Let_def)

lemma truncateDownloadFile_fails:
  "truncate_Seek_err io \<noteq> None \<or> Truncate_err io \<noteq> None \<Longrightarrow>
     \<exists>ld1 te. truncateDownloadFile io ld = (ld1, Some te) \<and> verifier ld1 = None"
  by (auto simp: truncateDownloadFile_def Let_def split: option.splits)

lemma Download_file_after_truncate:
  "tmpFile ld = Some [] \<Longrightarrow> Download_file io2 ld = (ld2, Inr off) \<Longrightarrow>
     off = 0 \<and> tmpFile ld2 = Some [] \<and> verifier ld2 = verifier ld"
  by (auto simp: Download_file_def split: option.splits)

lemma Download_open_zero:
  "Download_open env io2 ld 0 = (ld2, Inr (off, sz)) \<Longrightarrow> off = 0"
  by (auto simp: Download_open_def split: option.splits sum.splits if_splits prod.splits)

lemma Download_file_keeps: "Download_file io ld = (ld1, Inr off) \<Longrightarrow> tmpFile ld1 \<noteq> None"
  by (auto simp: Download_file_def split: option.splits)

lemma truncateDownloadFile_tmp: "truncateDownloadFile io ld = (ld1, x) \<Longrightarrow> tmpFile ld \<noteq> None \<Longrightarrow> tmpFile ld1 \<noteq> None"
  by (auto simp: truncateDownloadFile_def Let_def split: option.splits)

lemma Download_open_keeps:
  "Download_open env io ld off0 = (ld1, Inr (off, sz)) \<Longrightarrow> tmpFile ld \<noteq> None \<Longrightarrow> tmpFile ld1 \<noteq> None"
  by (auto simp: Download_open_def split: option.splits sum.splits if_splits prod.splits
           dest: truncateDownloadFile_tmp)

lemma Download_copy_keeps:
  "Download_copy env io ld off = (ld1, None) \<Longrightarrow> tmpFile ld \<noteq> None \<Longrightarrow> tmpFile ld1 \<noteq> None"
  by (auto simp: Download_copy_def Let_def split: option.splits if_splits prod.splits)

text \<open>
  C4 (amended). Take an attempt that has transferred the stream from \<open>offset\<close> without
  error and whose verifier rejects the digest. If the offset is not zero (a resumed
  download) and the temporary file can be truncated, the attempt returns the
  verification error as an error that may be retried, with the file emptied and the
  verifier discarded, so that every later attempt starts from offset zero. If the
  offset is not zero and the file cannot be truncated, the attempt returns that error
  as one not to be retried. If the offset is zero the verification error itself is
  returned as one not to be retried.
\<close>

theorem Download_verification_failure:
  assumes f: "Download_file io ld = (ld1, Inr offset0)"
    and op: "Download_open env io ld1 offset0 = (ld2, Inr (offset, blobSize))"
    and cp: "Download_copy env io ld2 offset = (ld3, None)"
    and nv: "\<not> verifier_Verified env ld3"
  shows
    "(offset \<noteq> 0 \<and> truncate_Seek_err io = None \<and> Truncate_err io = None \<longrightarrow>
        (\<exists>ld'. Download env io ld = (ld', Inl (verification_failed ld3))
           \<and> \<not> IsDoNotRetryError (verification_failed ld3)
           \<and> tmpFile ld' = Some [] \<and> verifier ld' = None
           \<and> (\<forall>io2 lda off. Download_file io2 ld' = (lda, Inr off) \<longrightarrow>
                 off = 0 \<and> tmpFile lda = Some [] \<and> verifier lda = None
               \<and> (\<forall>ldb off' sz. Download_open env io2 lda off = (ldb, Inr (off', sz)) \<longrightarrow> off' = 0))))
   \<and> (offset \<noteq> 0 \<and> (truncate_Seek_err io \<noteq> None \<or> Truncate_err io \<noteq> None) \<longrightarrow>
        (\<exists>ld' te. Download env io ld = (ld', Inl (DoNotRetry te))))
   \<and> (offset = 0 \<longrightarrow>
        Download env io ld = (ld3, Inl (DoNotRetry (verification_failed ld3)))
        \<and> IsDoNotRetryError (DoNotRetry (verification_failed ld3)))"
proof -
  have d: "Download env io ld = Download_verify env io ld3 offset blobSize"
    using f op cp by (simp add: Download_def)
  have t3: "tmpFile ld3 \<noteq> None"
    using Download_copy_keeps[OF cp Download_open_keeps[OF op Download_file_keeps[OF f]]] .
  have 1: "offset \<noteq> 0 \<and> truncate_Seek_err io = None \<and> Truncate_err io = None \<longrightarrow>
        (\<exists>ld'. Download env io ld = (ld', Inl (verification_failed ld3))
           \<and> \<not> IsDoNotRetryError (verification_failed ld3)
           \<and> tmpFile ld' = Some [] \<and> verifier ld' = None
           \<and> (\<forall>io2 lda off. Download_file io2 ld' = (lda, Inr off) \<longrightarrow>
                 off = 0 \<and> tmpFile lda = Some [] \<and> verifier lda = None
               \<and> (\<forall>ldb off' sz. Download_open env io2 lda off = (ldb, Inr (off', sz)) \<longrightarrow> off' = 0)))"
  proof (intro impI, elim conjE)
    assume o: "offset \<noteq> 0" and a: "truncate_Seek_err io = None" and b: "Truncate_err io = None"
    let ?ld' = "ld3\<lparr>verifier := None, tmpFile := Some []\<rparr>"
    have r: "Download env io ld = (?ld', Inl (verification_failed ld3))"
      using d nv o truncateDownloadFile_ok[OF t3 a b] by (simp add: Download_verify_def)
    have n: "\<forall>io2 lda off. Download_file io2 ?ld' = (lda, Inr off) \<longrightarrow>
                 off = 0 \<and> tmpFile lda = Some [] \<and> verifier lda = None
               \<and> (\<forall>ldb off' sz. Download_open env io2 lda off = (ldb, Inr (off', sz)) \<longrightarrow> off' = 0)"
    proof (intro allI impI)
      fix io2 lda off assume "Download_file io2 ?ld' = (lda, Inr off)"
      from Download_file_after_truncate[OF _ this]
      have "off = 0" "tmpFile lda = Some []" "verifier lda = None" by simp_all
      then show "off = 0 \<and> tmpFile lda = Some [] \<and> verifier lda = None
               \<and> (\<forall>ldb off' sz. Download_open env io2 lda off = (ldb, Inr (off', sz)) \<longrightarrow> off' = 0)"
        using Download_open_zero by blast
    qed
    from r n show "\<exists>ld'. Download env io ld = (ld', Inl (verification_failed ld3))
           \<and> \<not> IsDoNotRetryError (verification_failed ld3)
           \<and> tmpFile ld' = Some [] \<and> verifier ld' = None
           \<and> (\<forall>io2 lda off. Download_file io2 ld' = (lda, Inr off) \<longrightarrow>
                 off = 0 \<and> tmpFile lda = Some [] \<and> verifier lda = None
               \<and> (\<forall>ldb off' sz. Download_open env io2 lda off = (ldb, Inr (off', sz)) \<longrightarrow> off' = 0))"
      by (intro exI[of _ ?ld']) (simp add: verification_failed_def)
  qed
  have 2: "offset \<noteq> 0 \<and> (truncate_Seek_err io \<noteq> None \<or> Truncate_err io \<noteq> None) \<longrightarrow>
        (\<exists>ld' te. Download env io ld = (ld', Inl (DoNotRetry te)))"
  proof (intro impI, elim conjE)
    assume o: "offset \<noteq> 0" and a: "truncate_Seek_err io \<noteq> None \<or> Truncate_err io \<noteq> None"
    from truncateDownloadFile_fails[OF a, of ld3] obtain ld1 te where
      "truncateDownloadFile io ld3 = (ld1, Some te)" by blast
    with d nv o show "\<exists>ld' te. Download env io ld = (ld', Inl (DoNotRetry te))"
      by (simp add: Download_verify_def)
  qed
  have 3: "offset = 0 \<longrightarrow>
        Download env io ld = (ld3, Inl (DoNotRetry (verification_failed ld3)))
        \<and> IsDoNotRetryError (DoNotRetry (verification_failed ld3))"
    using d nv by (simp add: Download_verify_def)
  from 1 2 3 show ?thesis by blast
qed

theorem Download_verification_failure_witness:
  "Download_file attempt_corrupt ld_resumed = (ld_resumed, Inr 2)
   \<and> Download_open env0 attempt_corrupt ld_resumed 2 = (ld_resumed, Inr (2, 4))
   \<and> Download_copy env0 attempt_corrupt ld_resumed 2
        = (ld_resumed\<lparr>tmpFile := Some ''abXd'', verifier := Some ''abXd''\<rparr>, None)
   \<and> \<not> verifier_Verified env0 (ld_resumed\<lparr>tmpFile := Some ''abXd'', verifier := Some ''abXd''\<rparr>)
   \<and> (\<exists>ld'. Download env0 attempt_corrupt ld_resumed
              = (ld', Inl (Errorf ''filesystem layer verification failed for digest sha256:abcd''))
          \<and> tmpFile ld' = Some [] \<and> verifier ld' = None
          \<and> (\<forall>io2 lda off. Download_file io2 ld' = (lda, Inr off) \<longrightarrow> off = 0))
   \<and> (\<exists>ld' te. Download env0 attempt_corrupt_stuck ld_resumed = (ld', Inl (DoNotRetry te)))
   \<and> Download_file attempt_corrupt ld_fresh = (ld_fresh\<lparr>tmpFile := Some []\<rparr>, Inr 0)
   \<and> snd (Download env0 attempt_corrupt ld_fresh)
        = Inl (DoNotRetry (Errorf ''filesystem layer verification failed for digest sha256:abcd''))"
proof -
  let ?ld3 = "ld_resumed\<lparr>tmpFile := Some ''abXd'', verifier := Some ''abXd''\<rparr>"
  let ?lf1 = "ld_fresh\<lparr>tmpFile := Some []\<rparr>"
  let ?lf3 = "ld_fresh\<lparr>tmpFile := Some ''abXd'', verifier := Some ''abXd''\<rparr>"
  have f: "Download_file attempt_corrupt ld_resumed = (ld_resumed, Inr 2)"
    by (simp add: Download_file_def ld_resumed_def attempt_corrupt_def)
  have op: "Download_open env0 attempt_corrupt ld_resumed 2 = (ld_resumed, Inr (2, 4))"
    by (simp add: Download_open_def attempt_corrupt_def)
  have cp: "Download_copy env0 attempt_corrupt ld_resumed 2 = (?ld3, None)"
    by (simp add: Download_copy_def ld_resumed_def attempt_corrupt_def Let_def)
  have nv: "\<not> verifier_Verified env0 ?ld3"
    by (simp add: verifier_Verified_def Verified_def ld_resumed_def lib0_def)
  have vf: "verification_failed ?ld3 = Errorf ''filesystem layer verification failed for digest sha256:abcd''"
    by (simp add: verification_failed_def ld_resumed_def)
  have t: "truncate_Seek_err attempt_corrupt = None" "Truncate_err attempt_corrupt = None"
    by (simp_all add: attempt_corrupt_def)
  from Download_verification_failure[OF f op cp nv] t vf
  have a: "\<exists>ld'. Download env0 attempt_corrupt ld_resumed
              = (ld', Inl (Errorf ''filesystem layer verification failed for digest sha256:abcd''))
          \<and> tmpFile ld' = Some [] \<and> verifier ld' = None
          \<and> (\<forall>io2 lda off. Download_file io2 ld' = (lda, Inr off) \<longrightarrow> off = 0)"
    by (auto simp del: One_nat_def)
  have f': "Download_file attempt_corrupt_stuck ld_resumed = (ld_resumed, Inr 2)"
    by (simp add: Download_file_def ld_resumed_def attempt_corrupt_def attempt_corrupt_stuck_def)
  have op': "Download_open env0 attempt_corrupt_stuck ld_resumed 2 = (ld_resumed, Inr (2, 4))"
    by (simp add: Download_open_def attempt_corrupt_def attempt_corrupt_stuck_def)
  have cp': "Download_copy env0 attempt_corrupt_stuck ld_resumed 2 = (?ld3, None)"
    by (simp add: Download_copy_def ld_resumed_def attempt_corrupt_def attempt_corrupt_stuck_def Let_def)
  have t': "Truncate_err attempt_corrupt_stuck \<noteq> None" by (simp add: attempt_corrupt_stuck_def)
  from Download_verification_failure[OF f' op' cp' nv] t'
  have b: "\<exists>ld' te. Download env0 attempt_corrupt_stuck ld_resumed = (ld', Inl (DoNotRetry te))"
    by simp
  have g: "Download_file attempt_corrupt ld_fresh = (?lf1, Inr 0)"
    by (simp add: Download_file_def ld_fresh_def attempt_corrupt_def)
  have oq: "Download_open env0 attempt_corrupt ?lf1 0 = (?lf1, Inr (0, 4))"
    by (simp add: Download_open_def attempt_corrupt_def)
  have cq: "Download_copy env0 attempt_corrupt ?lf1 0 = (?lf3, None)"
    by (simp add: Download_copy_def ld_fresh_def attempt_corrupt_def Let_def)
  have nq: "\<not> verifier_Verified env0 ?lf3"
    by (simp add: verifier_Verified_def Verified_def ld_fresh_def lib0_def)
  have vq: "verification_failed ?lf3 = Errorf ''filesystem layer verification failed for digest sha256:abcd''"
    by (simp add: verification_failed_def ld_fresh_def)
  from Download_verification_failure[OF g oq cq nq] vq
  have c: "snd (Download env0 attempt_corrupt ld_fresh)
        = Inl (DoNotRetry (Errorf ''filesystem layer verification failed for digest sha256:abcd''))"
    by simp
  from f op cp nv a b g c show ?thesis by blast
qed

theorem Download_truncate_failure_counterexample:
  "Download_file attempt_corrupt_stuck ld_resumed = (ld_resumed, Inr 2)
   \<and> snd (Download env0 attempt_corrupt_stuck ld_resumed) = Inl (DoNotRetry (Other ''read-only file system''))
   \<and> tmpFile (fst (Download env0 attempt_corrupt_stuck ld_resumed)) = Some ''abXd''
   \<and> \<not> verifier_Verified env0 (ld_resumed\<lparr>tmpFile := Some ''abXd'', verifier := Some ''abXd''\<rparr>)"
  by (simp add: Download_def Download_file_def Download_open_def Download_copy_def Download_verify_def
        truncateDownloadFile_def verifier_Verified_def Verified_def Let_def
        ld_resumed_def attempt_corrupt_def attempt_corrupt_stuck_def lib0_def)

section \<open>Nested manifest lists\<close>

text \<open>
  C5. The code at two manifest lists of the example registry, each with a nested
  manifest list as its first match and the pullable manifest of "v1" as its second.
  When the nested list has no match for the platform, its \<open>noMatchesErr\<close> is what the
  whole pull returns, although the second match alone pulls without error. When the
  pull of the nested list fails with another error (its entry cannot be fetched), the
  loop goes on to the second match and the pull succeeds.
\<close>

theorem pullManifestList_nested_errors:
  "map_option snd (pullManifestList 1 env0 state0 (Canonical ''app'' ''sha256:in'') manifest_inner None)
     = Some (Inl (noMatchesErr zero_Platform))
   \<and> map_option snd (pullTag 2 env0 state0 (Tagged ''app'' ''multi'') None)
     = Some (Inl (noMatchesErr zero_Platform))
   \<and> map_option snd (pullManifestMatches 1 env0 state0 (Tagged ''app'' ''multi'') ''sha256:mm''
                        zero_Platform None [list_entry ''sha256:m1''])
     = Some (Inr (''sha256:ab'', ''sha256:mm''))
   \<and> map_option snd (pullManifestList 1 env0 state0 (Canonical ''app'' ''sha256:ie'') manifest_inner_err None)
     = Some (Inl (Other ''manifest unknown''))
   \<and> map_option snd (pullTag 2 env0 state0 (Tagged ''app'' ''multi2'') None) = Some (Inr True)
   \<and> map_option (\<lambda>(s, r). images s ''sha256:ab'') (pullTag 2 env0 state0 (Tagged ''app'' ''multi2'') None)
     = Some (Some ''ab'')"
  by code_simp

end
